theory Spec2Isabelle
  imports Main "HOL-Library.Word" "HOL-Library.Sublist"
begin

section \<open>JavaScript strings\<close>

text \<open>
  A JavaScript string is a sequence of UTF-16 code units. \<open>js\<close> writes an ASCII
  literal of the program as such a sequence.
\<close>

type_synonym jschar = "16 word"
type_synonym jsstring = "jschar list"

definition js :: "string \<Rightarrow> jsstring" where
  "js s = map (\<lambda>c. of_nat (of_char c)) s"

definition quote :: jschar where
  "quote = 0x27"

definition backslash :: jschar where
  "backslash = 0x5C"

text \<open>The separator of the joined names: space, U+00B7 (middle dot), space.\<close>

definition SEPARATOR :: jsstring where
  "SEPARATOR = [0x20, 0xB7, 0x20]"

text \<open>
  White space as \<^verbatim>\<open>\s\<close> and \<^verbatim>\<open>String.prototype.trim\<close> see it: the WhiteSpace and
  LineTerminator code points of ECMAScript.
\<close>

definition is_space :: "jschar \<Rightarrow> bool" where
  "is_space c \<longleftrightarrow>
     c = 0x09 \<or> c = 0x0A \<or> c = 0x0B \<or> c = 0x0C \<or> c = 0x0D \<or> c = 0x20 \<or> c = 0xA0
     \<or> c = 0x1680 \<or> (0x2000 \<le> c \<and> c \<le> 0x200A) \<or> c = 0x2028 \<or> c = 0x2029
     \<or> c = 0x202F \<or> c = 0x205F \<or> c = 0x3000 \<or> c = 0xFEFF"

definition trim :: "jsstring \<Rightarrow> jsstring" where
  "trim s = rev (dropWhile is_space (rev (dropWhile is_space s)))"

fun show_nat :: "nat \<Rightarrow> jsstring" where
  "show_nat n =
     (if n < 10 then [of_nat (48 + n)]
      else show_nat (n div 10) @ [of_nat (48 + n mod 10)])"

text \<open>\<^verbatim>\<open>text.indexOf(p)\<close>: the least index at which \<open>p\<close> occurs, \<open>None\<close> for \<open>-1\<close>.\<close>

fun indexOf :: "jsstring \<Rightarrow> jsstring \<Rightarrow> nat option" where
  "indexOf [] p = (if p = [] then Some 0 else None)"
| "indexOf (c # cs) p =
     (if prefix p (c # cs) then Some 0 else map_option Suc (indexOf cs p))"

section \<open>Errors\<close>

datatype js_error =
    Error jsstring
  | TypeError jsstring
  | ReferenceError jsstring
  | SyntaxError jsstring

fun message :: "js_error \<Rightarrow> jsstring" where
  "message (Error m) = m"
| "message (TypeError m) = m"
| "message (ReferenceError m) = m"
| "message (SyntaxError m) = m"

definition not_defined :: "jsstring \<Rightarrow> js_error" where
  "not_defined x = ReferenceError (x @ js '' is not defined'')"

definition cannot_read :: "jsstring \<Rightarrow> jsstring \<Rightarrow> js_error" where
  "cannot_read what key =
     TypeError (js ''Cannot read properties of '' @ what @ js '' (reading '' @ [quote] @ key
                @ [quote] @ js '')'')"

section \<open>The supporter document\<close>

text \<open>
  The parsed body of the roster endpoint is any JSON value. A number is kept as its
  \<^verbatim>\<open>ToString\<close> rendering, which is all the program can observe of it. A value of type
  \<open>json option\<close> is a JavaScript value that may be \<^verbatim>\<open>undefined\<close> (\<open>None\<close>).
\<close>

datatype json =
    JNull
  | JBool bool
  | JNum jsstring
  | JStr jsstring
  | JArr "json list"
  | JObj "(jsstring \<times> json) list"

text \<open>
  \<^verbatim>\<open>x.key\<close> for the keys the program reads (\<^verbatim>\<open>tiers\<close>, \<^verbatim>\<open>members\<close>, \<^verbatim>\<open>name\<close>): a
  TypeError on \<^verbatim>\<open>undefined\<close> and \<^verbatim>\<open>null\<close>, the member's value on an object (the last one
  when \<^verbatim>\<open>JSON.parse\<close> met the key twice), \<^verbatim>\<open>undefined\<close> on every other value.
\<close>

fun get_prop :: "json option \<Rightarrow> jsstring \<Rightarrow> js_error + json option" where
  "get_prop None k = Inl (cannot_read (js ''undefined'') k)"
| "get_prop (Some JNull) k = Inl (cannot_read (js ''null'') k)"
| "get_prop (Some (JObj kvs)) k = Inr (map_of (rev kvs) k)"
| "get_prop (Some _) k = Inr None"

text \<open>\<^verbatim>\<open>x?.key\<close>: \<^verbatim>\<open>undefined\<close> when \<open>x\<close> is \<^verbatim>\<open>null\<close> or \<^verbatim>\<open>undefined\<close>.\<close>

fun get_prop_opt :: "json option \<Rightarrow> jsstring \<Rightarrow> json option" where
  "get_prop_opt (Some (JObj kvs)) k = map_of (rev kvs) k"
| "get_prop_opt _ k = None"

fun isArray :: "json option \<Rightarrow> bool" where
  "isArray (Some (JArr xs)) = True"
| "isArray _ = False"

text \<open>
  The loop of \<^verbatim>\<open>Array.prototype.join\<close> in the language definition: \<open>R\<close> is the string built
  so far and \<open>k\<close> the index. The list holds for each element the outcome of printing it,
  which the loop asks for in turn; the first element that cannot be printed ends the loop
  with its error.
\<close>

fun join_from ::
  "jsstring \<Rightarrow> (js_error + jsstring) list \<Rightarrow> nat \<Rightarrow> jsstring \<Rightarrow> js_error + jsstring" where
  "join_from sep [] k R = Inr R"
| "join_from sep (x # xs) k R =
     (case x of
        Inl e \<Rightarrow> Inl e
      | Inr next \<Rightarrow> join_from sep xs (Suc k) ((if 0 < k then R @ sep else R) @ next))"

text \<open>
  \<^verbatim>\<open>ToString\<close> of a JSON value, as a template literal applies it. An array prints as its
  elements joined by commas, \<^verbatim>\<open>null\<close> elements as the empty string. An object is converted
  by its \<^verbatim>\<open>toString\<close> method, then by \<^verbatim>\<open>valueOf\<close>: an object without a member of the name
  \<^verbatim>\<open>toString\<close> inherits the method that prints \<^verbatim>\<open>[object Object]\<close>; a member of that name
  is a JSON value and so not callable, \<^verbatim>\<open>valueOf\<close> (a member likewise, or the inherited
  method, which returns the object) gives no primitive value either, and the conversion
  throws a TypeError.
\<close>

definition not_primitive :: js_error where
  "not_primitive = TypeError (js ''Cannot convert object to primitive value'')"

fun toString :: "json \<Rightarrow> js_error + jsstring" where
  "toString JNull = Inr (js ''null'')"
| "toString (JBool b) = Inr (if b then js ''true'' else js ''false'')"
| "toString (JNum r) = Inr r"
| "toString (JStr s) = Inr s"
| "toString (JArr xs) =
     join_from (js '','') (map (\<lambda>x. case x of JNull \<Rightarrow> Inr [] | _ \<Rightarrow> toString x) xs) 0 []"
| "toString (JObj kvs) =
     (if js ''toString'' \<in> set (map fst kvs) then Inl not_primitive
      else Inr (js ''[object Object]''))"

text \<open>
  \<^verbatim>\<open>array.join(sep)\<close>; \<^verbatim>\<open>undefined\<close> and \<^verbatim>\<open>null\<close> elements print as the empty string.
\<close>

fun element_string :: "json option \<Rightarrow> js_error + jsstring" where
  "element_string None = Inr []"
| "element_string (Some JNull) = Inr []"
| "element_string (Some v) = toString v"

definition js_join :: "json option list \<Rightarrow> jsstring \<Rightarrow> js_error + jsstring" where
  "js_join xs sep = join_from sep (map element_string xs) 0 []"

text \<open>\<^verbatim>\<open>tiers.some(tier => !Array.isArray(tier.members))\<close>, left to right.\<close>

fun some_members_not_array :: "json list \<Rightarrow> js_error + bool" where
  "some_members_not_array [] = Inr False"
| "some_members_not_array (tier # tiers) =
     (case get_prop (Some tier) (js ''members'') of
        Inl e \<Rightarrow> Inl e
      | Inr v \<Rightarrow> if \<not> isArray v then Inr True else some_members_not_array tiers)"

text \<open>\<^verbatim>\<open>members.map((m) => m.name)\<close>.\<close>

fun map_name :: "json list \<Rightarrow> js_error + json option list" where
  "map_name [] = Inr []"
| "map_name (m # ms) =
     (case get_prop (Some m) (js ''name'') of
        Inl e \<Rightarrow> Inl e
      | Inr v \<Rightarrow> (case map_name ms of Inl e \<Rightarrow> Inl e | Inr vs \<Rightarrow> Inr (v # vs)))"

text \<open>
  \<^verbatim>\<open>const lastTier = data.tiers[data.tiers.length - 1];\<close>
  \<^verbatim>\<open>const names = lastTier.members.map((m) => m.name).join(" \u00b7 ");\<close>
  Index \<open>-1\<close> of an empty array is \<^verbatim>\<open>undefined\<close>.
\<close>

definition last_tier_names :: "json list \<Rightarrow> js_error + jsstring" where
  "last_tier_names tiers =
     (let lastTier = (if tiers = [] then None else Some (last tiers)) in
      case get_prop lastTier (js ''members'') of
        Inl e \<Rightarrow> Inl e
      | Inr None \<Rightarrow> Inl (cannot_read (js ''undefined'') (js ''map''))
      | Inr (Some JNull) \<Rightarrow> Inl (cannot_read (js ''null'') (js ''map''))
      | Inr (Some (JArr ms)) \<Rightarrow>
          (case map_name ms of Inl e \<Rightarrow> Inl e | Inr vs \<Rightarrow> js_join vs SEPARATOR)
      | Inr (Some _) \<Rightarrow> Inl (TypeError (js ''lastTier.members.map is not a function'')))"

text \<open>
  The roster checks of the first and second script variants, from the fetched body to
  the joined names; \<open>Inr None\<close> is the early return on an empty \<^verbatim>\<open>tiers\<close>.
\<close>

definition roster_names :: "json \<Rightarrow> js_error + jsstring option" where
  "roster_names data =
     (case get_prop_opt (Some data) (js ''tiers'') of
        Some (JArr tiers) \<Rightarrow>
          if tiers = [] then Inr None
          else (case some_members_not_array tiers of
                  Inl e \<Rightarrow> Inl e
                | Inr True \<Rightarrow> Inl (Error (js ''Supporter data is missing or malformed.''))
                | Inr False \<Rightarrow> map_sum id Some (last_tier_names tiers))
      | _ \<Rightarrow> Inl (Error (js ''Supporter tiers are missing or malformed.'')))"

text \<open>The third variant has one combined check and no guard for an empty \<^verbatim>\<open>tiers\<close>.\<close>

definition roster_names3 :: "json \<Rightarrow> js_error + jsstring" where
  "roster_names3 data =
     (case get_prop_opt (Some data) (js ''tiers'') of
        Some (JArr tiers) \<Rightarrow>
          (case some_members_not_array tiers of
             Inl e \<Rightarrow> Inl e
           | Inr True \<Rightarrow> Inl (Error (js ''Supporter data is missing or malformed.''))
           | Inr False \<Rightarrow> last_tier_names tiers)
      | _ \<Rightarrow> Inl (Error (js ''Supporter data is missing or malformed.'')))"

text \<open>
  The specification's reading of the joined string: the names in order, the separator
  between each two of them.
\<close>

fun separated_by :: "jsstring \<Rightarrow> jsstring list \<Rightarrow> jsstring" where
  "separated_by sep [] = []"
| "separated_by sep [x] = x"
| "separated_by sep (x # y # ys) = x @ sep @ separated_by sep (y # ys)"

text \<open>A member object whose \<^verbatim>\<open>name\<close> is the string \<open>n\<close>.\<close>

definition member_named :: "json \<Rightarrow> jsstring \<Rightarrow> bool" where
  "member_named m n \<longleftrightarrow> get_prop (Some m) (js ''name'') = Inr (Some (JStr n))"

definition tier_members :: "json \<Rightarrow> json list option" where
  "tier_members t =
     (case get_prop (Some t) (js ''members'') of Inr (Some (JArr ms)) \<Rightarrow> Some ms | _ \<Rightarrow> None)"

section \<open>Regular expressions and replacement\<close>

text \<open>
  \<^verbatim>\<open>new RegExp(source)\<close> and \<^verbatim>\<open>String.prototype.replace\<close> belong to the language, not to
  the program. A compiled pattern (no flags, so neither global nor sticky) is modelled by
  what \<^verbatim>\<open>replace\<close> asks of it: for a subject string, the leftmost match as the pair of
  its start and end index, or \<open>None\<close>. Capture groups are not modelled.
\<close>

type_synonym regexp = "jsstring \<Rightarrow> (nat \<times> nat) option"

definition dollar :: jschar where
  "dollar = 0x24"

text \<open>
  \<^verbatim>\<open>GetSubstitution\<close> for a match without capture groups: in the replacement template
  \<^verbatim>\<open>$$\<close> is a dollar sign, \<^verbatim>\<open>$&\<close> the matched text, \<^verbatim>\<open>$`\<close> the text before the match
  and \<^verbatim>\<open>$'\<close> the text after it; every other character, a dollar sign before a digit
  or \<^verbatim>\<open><\<close> included, stands for itself.
\<close>

fun get_substitution :: "jsstring \<Rightarrow> jsstring \<Rightarrow> jsstring \<Rightarrow> jsstring \<Rightarrow> jsstring" where
  "get_substitution matched preceding following [] = []"
| "get_substitution matched preceding following [c] = [c]"
| "get_substitution matched preceding following (c # d # r) =
     (if c = dollar \<and> d = dollar then dollar # get_substitution matched preceding following r
      else if c = dollar \<and> d = 0x26 then matched @ get_substitution matched preceding following r
      else if c = dollar \<and> d = 0x60 then preceding @ get_substitution matched preceding following r
      else if c = dollar \<and> d = 0x27 then following @ get_substitution matched preceding following r
      else c # get_substitution matched preceding following (d # r))"

text \<open>
  A string in which no replacement pattern of a template stands: no dollar sign in it is
  followed by a dollar sign, \<^verbatim>\<open>&\<close>, a backquote or a quote. A dollar sign before any
  other character (\<^verbatim>\<open>A$AP\<close>) or at the end is not a pattern.
\<close>

fun pattern_free :: "jsstring \<Rightarrow> bool" where
  "pattern_free [] = True"
| "pattern_free [c] = True"
| "pattern_free (c # d # r) \<longleftrightarrow>
     \<not> (c = dollar \<and> (d = dollar \<or> d = 0x26 \<or> d = 0x60 \<or> d = 0x27)) \<and> pattern_free (d # r)"

text \<open>\<^verbatim>\<open>text.replace(pattern, replacement)\<close> with a string replacement.\<close>

definition js_replace :: "jsstring \<Rightarrow> regexp \<Rightarrow> jsstring \<Rightarrow> jsstring" where
  "js_replace text pattern replacement =
     (case pattern text of
        None \<Rightarrow> text
      | Some (i, e) \<Rightarrow>
          take i text
          @ get_substitution (take (e - i) (drop i text)) (take i text) (drop e text) replacement
          @ drop e text)"

subsection \<open>A fragment of the pattern language\<close>

text \<open>
  The patterns of this fragment are alternatives of terms; a term is an assertion
  (\<^verbatim>\<open>^\<close>, \<^verbatim>\<open>$\<close>) or an atom that matches one code unit (a character, \<^verbatim>\<open>.\<close>, \<^verbatim>\<open>\s\<close>,
  \<^verbatim>\<open>\S\<close>, an escaped syntax character or slash, a class of these) with an optional quantifier
  \<^verbatim>\<open>*\<close>, \<^verbatim>\<open>+\<close>, \<^verbatim>\<open>?\<close>, greedy or lazy. Groups, braces, ranges and the other escapes are
  outside the fragment.
\<close>

datatype class_item = ILit jschar | ISpace | INonSpace

datatype atom = Lit jschar | Dot | Space | NonSpace | Class bool "class_item list"

datatype greed = Greedy | Lazy

datatype quant = One | Opt greed | Star greed | Plus greed

datatype rterm = Atom atom quant | Bol | Eol

definition is_line_terminator :: "jschar \<Rightarrow> bool" where
  "is_line_terminator c \<longleftrightarrow> c = 0x0A \<or> c = 0x0D \<or> c = 0x2028 \<or> c = 0x2029"

fun item_match :: "class_item \<Rightarrow> jschar \<Rightarrow> bool" where
  "item_match (ILit d) c = (c = d)"
| "item_match ISpace c = is_space c"
| "item_match INonSpace c = (\<not> is_space c)"

fun atom_match :: "atom \<Rightarrow> jschar \<Rightarrow> bool" where
  "atom_match (Lit d) c = (c = d)"
| "atom_match Dot c = (\<not> is_line_terminator c)"
| "atom_match Space c = is_space c"
| "atom_match NonSpace c = (\<not> is_space c)"
| "atom_match (Class negated items) c = (list_ex (\<lambda>i. item_match i c) items \<noteq> negated)"

text \<open>
  The backtracking matcher of the language definition, for one alternative: \<open>at0\<close>
  tells whether the position is index 0, the third argument is the subject from the
  position on, the result is the subject after the match. A greedy quantifier tries
  one more code unit before it tries the rest of the pattern; a lazy one tries the rest
  first.
\<close>

fun match_terms :: "rterm list \<Rightarrow> bool \<Rightarrow> jsstring \<Rightarrow> jsstring option" where
  "match_terms [] at0 r = Some r"
| "match_terms (Bol # ts) at0 r = (if at0 then match_terms ts at0 r else None)"
| "match_terms (Eol # ts) at0 r = (if r = [] then match_terms ts at0 r else None)"
| "match_terms (Atom x One # ts) at0 [] = None"
| "match_terms (Atom x One # ts) at0 (c # r) =
     (if atom_match x c then match_terms ts False r else None)"
| "match_terms (Atom x (Opt g) # ts) at0 [] = match_terms ts at0 []"
| "match_terms (Atom x (Opt Greedy) # ts) at0 (c # r) =
     (if atom_match x c
      then (case match_terms ts False r of
              Some y \<Rightarrow> Some y
            | None \<Rightarrow> match_terms ts at0 (c # r))
      else match_terms ts at0 (c # r))"
| "match_terms (Atom x (Opt Lazy) # ts) at0 (c # r) =
     (case match_terms ts at0 (c # r) of
        Some y \<Rightarrow> Some y
      | None \<Rightarrow> if atom_match x c then match_terms ts False r else None)"
| "match_terms (Atom x (Star g) # ts) at0 [] = match_terms ts at0 []"
| "match_terms (Atom x (Star Greedy) # ts) at0 (c # r) =
     (if atom_match x c
      then (case match_terms (Atom x (Star Greedy) # ts) False r of
              Some y \<Rightarrow> Some y
            | None \<Rightarrow> match_terms ts at0 (c # r))
      else match_terms ts at0 (c # r))"
| "match_terms (Atom x (Star Lazy) # ts) at0 (c # r) =
     (case match_terms ts at0 (c # r) of
        Some y \<Rightarrow> Some y
      | None \<Rightarrow> if atom_match x c then match_terms (Atom x (Star Lazy) # ts) False r else None)"
| "match_terms (Atom x (Plus g) # ts) at0 [] = None"
| "match_terms (Atom x (Plus g) # ts) at0 (c # r) =
     (if atom_match x c then match_terms (Atom x (Star g) # ts) False r else None)"

fun match_alternatives :: "rterm list list \<Rightarrow> bool \<Rightarrow> jsstring \<Rightarrow> jsstring option" where
  "match_alternatives [] at0 r = None"
| "match_alternatives (ts # alts) at0 r =
     (case match_terms ts at0 r of
        Some y \<Rightarrow> Some y
      | None \<Rightarrow> match_alternatives alts at0 r)"

text \<open>
  \<^verbatim>\<open>RegExpBuiltinExec\<close> from \<^verbatim>\<open>lastIndex = 0\<close>: the match is tried at index \<open>i\<close>, then at
  \<open>i + 1\<close>, up to the length of the subject.
\<close>

fun search :: "rterm list list \<Rightarrow> nat \<Rightarrow> jsstring \<Rightarrow> (nat \<times> nat) option" where
  "search alts i [] =
     (case match_alternatives alts (i = 0) [] of Some y \<Rightarrow> Some (i, i) | None \<Rightarrow> None)"
| "search alts i (c # r) =
     (case match_alternatives alts (i = 0) (c # r) of
        Some y \<Rightarrow> Some (i, i + (length (c # r) - length y))
      | None \<Rightarrow> search alts (Suc i) r)"

definition exec :: "rterm list list \<Rightarrow> regexp" where
  "exec alts text = search alts 0 text"

text \<open>
  The pattern source is read left to right: \<open>cur\<close> is the alternative being read and
  \<open>done\<close> the finished ones, both in reverse; inside a class, the mode keeps its
  negation and its items.
\<close>

datatype 'a parsed = Parsed 'a | Invalid jsstring | Outside_fragment

datatype mode = Top | In_class bool "class_item list"

definition is_syntax_char :: "jschar \<Rightarrow> bool" where
  "is_syntax_char c \<longleftrightarrow> c \<in> set (js ''^$.*+?()[]{}|'') \<or> c = backslash"

fun quantify :: "jschar \<Rightarrow> rterm list \<Rightarrow> rterm list option" where
  "quantify c (Atom x One # cur) =
     Some (Atom x (if c = 0x2A then Star Greedy else if c = 0x2B then Plus Greedy else Opt Greedy)
           # cur)"
| "quantify c (Atom x (Opt Greedy) # cur) =
     (if c = 0x3F then Some (Atom x (Opt Lazy) # cur) else None)"
| "quantify c (Atom x (Star Greedy) # cur) =
     (if c = 0x3F then Some (Atom x (Star Lazy) # cur) else None)"
| "quantify c (Atom x (Plus Greedy) # cur) =
     (if c = 0x3F then Some (Atom x (Plus Lazy) # cur) else None)"
| "quantify c cur = None"

fun parse :: "mode \<Rightarrow> rterm list \<Rightarrow> rterm list list \<Rightarrow> jsstring \<Rightarrow> rterm list list parsed" where
  "parse Top cur done [] = Parsed (rev (rev cur # done))"
| "parse (In_class negated items) cur done [] = Invalid (js ''Unterminated character class'')"
| "parse (In_class negated items) cur done (c # r) =
     (if c = 0x5D then parse Top (Atom (Class negated (rev items)) One # cur) done r
      else if c = backslash then
        (case r of
           [] \<Rightarrow> Invalid (backslash # js '' at end of pattern'')
         | e # r' \<Rightarrow>
             if e = 0x73 then parse (In_class negated (ISpace # items)) cur done r'
             else if e = 0x53 then parse (In_class negated (INonSpace # items)) cur done r'
             else if is_syntax_char e \<or> e = 0x2F then parse (In_class negated (ILit e # items)) cur done r'
             else Outside_fragment)
      else if c = 0x2D then Outside_fragment
      else parse (In_class negated (ILit c # items)) cur done r)"
| "parse Top cur done (c # r) =
     (if c = 0x7C then parse Top [] (rev cur # done) r
      else if c = 0x5E then parse Top (Bol # cur) done r
      else if c = dollar then parse Top (Eol # cur) done r
      else if c = 0x2E then parse Top (Atom Dot One # cur) done r
      else if c = 0x2A \<or> c = 0x2B \<or> c = 0x3F then
        (case quantify c cur of
           None \<Rightarrow> Invalid (js ''Nothing to repeat'')
         | Some cur' \<Rightarrow> parse Top cur' done r)
      else if c = 0x5B then
        (case r of
           [] \<Rightarrow> Invalid (js ''Unterminated character class'')
         | d # r' \<Rightarrow>
             if d = 0x5E then parse (In_class True []) cur done r'
             else parse (In_class False []) cur done r)
      else if c = backslash then
        (case r of
           [] \<Rightarrow> Invalid (backslash # js '' at end of pattern'')
         | e # r' \<Rightarrow>
             if e = 0x73 then parse Top (Atom Space One # cur) done r'
             else if e = 0x53 then parse Top (Atom NonSpace One # cur) done r'
             else if is_syntax_char e \<or> e = 0x2F then parse Top (Atom (Lit e) One # cur) done r'
             else Outside_fragment)
      else if is_syntax_char c then Outside_fragment
      else parse Top (Atom (Lit c) One # cur) done r)"

text \<open>
  \<^verbatim>\<open>new RegExp(source)\<close> on the fragment: the compiled pattern, or the SyntaxError the
  constructor throws; \<open>None\<close> for a source outside the fragment.
\<close>

definition RegExp_fragment :: "jsstring \<Rightarrow> (js_error + regexp) option" where
  "RegExp_fragment source =
     (case parse Top [] [] source of
        Parsed alts \<Rightarrow> Some (Inr (exec alts))
      | Invalid why \<Rightarrow>
          Some (Inl (SyntaxError
            (js ''Invalid regular expression: /'' @ source @ js ''/: '' @ why)))
      | Outside_fragment \<Rightarrow> None)"

text \<open>
  A marker is plain when none of its characters is a syntax character of the pattern
  language; the source built from two plain markers denotes one alternative: the start
  marker's characters, white space, any characters (as few as possible), white space,
  the end marker's characters.
\<close>

definition plain :: "jsstring \<Rightarrow> bool" where
  "plain s = list_all (\<lambda>c. \<not> is_syntax_char c) s"

definition lit :: "jschar \<Rightarrow> rterm" where
  "lit c = Atom (Lit c) One"

definition between_terms :: "rterm list" where
  "between_terms =
     [Atom Space (Star Greedy), Atom (Class False [ISpace, INonSpace]) (Star Lazy),
      Atom Space (Star Greedy)]"

text \<open>
  The subject after the first occurrence of the end marker \<open>e\<close> in \<open>r\<close>, if there is one.
\<close>

definition first_end :: "jsstring \<Rightarrow> jsstring \<Rightarrow> jsstring option" where
  "first_end e r = (case indexOf r e of Some k \<Rightarrow> Some (drop (k + length e) r) | None \<Rightarrow> None)"

section \<open>Configuration\<close>

definition dq :: jschar where
  "dq = 0x22"

text \<open>
  Modelled from the spec: the action's metadata file (\<^verbatim>\<open>action.yml\<close>), which declares the
  inputs and their defaults, is not among the sources. The defaults are those of the
  specification (section 6: \<^verbatim>\<open>fail-on-missing-markers\<close> default true, \<^verbatim>\<open>git-email\<close> default
  \<^verbatim>\<open>actions@github.com\<close>) and of the input table of the README.
\<close>

definition action_defaults :: "jsstring \<Rightarrow> jsstring option" where
  "action_defaults name =
     (if name = js ''files-to-update'' then Some (js ''['' @ [dq] @ js ''README.md'' @ [dq] @ js '']'')
      else if name = js ''fail-on-missing-markers'' then Some (js ''true'')
      else if name = js ''start-marker'' then Some (js ''<!-- marker:patrons-start -->'')
      else if name = js ''end-marker'' then Some (js ''<!-- marker:patrons-end -->'')
      else if name = js ''git-email'' then Some (js ''actions@github.com'')
      else None)"

text \<open>
  \<^verbatim>\<open>core.getInput(name)\<close>: the value the workflow supplies, else the declared default,
  else the empty string; trimmed.
\<close>

definition getInput :: "(jsstring \<Rightarrow> jsstring option) \<Rightarrow> jsstring \<Rightarrow> jsstring" where
  "getInput supplied name =
     trim (case supplied name of
             Some v \<Rightarrow> v
           | None \<Rightarrow> (case action_defaults name of Some d \<Rightarrow> d | None \<Rightarrow> []))"

record config =
  START_MARKER :: jsstring
  END_MARKER :: jsstring
  FAIL_ON_MISSING_MARKERS :: bool

definition BRANCH_NAME :: jsstring where
  "BRANCH_NAME = js ''update/patrons''"

definition CONFIG :: "(jsstring \<Rightarrow> jsstring option) \<Rightarrow> config" where
  "CONFIG supplied =
     \<lparr>START_MARKER = getInput supplied (js ''start-marker''),
      END_MARKER = getInput supplied (js ''end-marker''),
      FAIL_ON_MISSING_MARKERS = (getInput supplied (js ''fail-on-missing-markers'') = js ''true'')\<rparr>"

text \<open>
  \<^verbatim>\<open>const replacement = `${CONFIG.START_MARKER}\n\n${names}\n\n${CONFIG.END_MARKER}`;\<close>
  and the source of
  \<^verbatim>\<open>new RegExp(`${CONFIG.START_MARKER}\\s*[\\s\\S]*?\\s*${CONFIG.END_MARKER}`)\<close>.
\<close>

definition replacement_of :: "config \<Rightarrow> jsstring \<Rightarrow> jsstring" where
  "replacement_of cfg names =
     START_MARKER cfg @ [0x0A, 0x0A] @ names @ [0x0A, 0x0A] @ END_MARKER cfg"

definition between_markers :: jsstring where
  "between_markers =
     [backslash] @ js ''s*['' @ [backslash] @ js ''s'' @ [backslash] @ js ''S]*?''
     @ [backslash] @ js ''s*''"

definition pattern_source :: "config \<Rightarrow> jsstring" where
  "pattern_source cfg = START_MARKER cfg @ between_markers @ END_MARKER cfg"

section \<open>Marker substitution\<close>

text \<open>
  \<^verbatim>\<open>fs.readFile(filePath, "utf8")\<close> on the files of the working tree; an entry of
  \<^verbatim>\<open>files-to-update\<close> that is not a string is refused.
\<close>

definition readFile :: "(jsstring \<Rightarrow> jsstring option) \<Rightarrow> json \<Rightarrow> js_error + jsstring" where
  "readFile fs filePath =
     (case filePath of
        JStr path \<Rightarrow>
          (case fs path of
             Some fileContent \<Rightarrow> Inr fileContent
           | None \<Rightarrow>
               Inl (Error (js ''ENOENT: no such file or directory, open '' @ [quote] @ path
                           @ [quote])))
      | _ \<Rightarrow> Inl (TypeError (js ''The path argument must be of type string'')))"

definition markers_missing :: "config \<Rightarrow> json \<Rightarrow> js_error + jsstring option" where
  "markers_missing cfg filePath =
     (if FAIL_ON_MISSING_MARKERS cfg
      then (case toString filePath of
              Inl e \<Rightarrow> Inl e
            | Inr path \<Rightarrow> Inl (Error (js ''Markers are missing or misordered in '' @ path)))
      else Inr None)"

text \<open>\<^verbatim>\<open>updateFileContent\<close>; \<open>Inr None\<close> is the \<^verbatim>\<open>null\<close> it returns.\<close>

definition updateFileContent ::
  "config \<Rightarrow> (jsstring \<Rightarrow> jsstring option) \<Rightarrow> json \<Rightarrow> regexp \<Rightarrow> jsstring
   \<Rightarrow> js_error + jsstring option" where
  "updateFileContent cfg fs filePath pattern replacement =
     (case readFile fs filePath of
        Inl e \<Rightarrow> Inl e
      | Inr fileContent \<Rightarrow>
          (case indexOf fileContent (START_MARKER cfg) of
             None \<Rightarrow> markers_missing cfg filePath
           | Some startIndex \<Rightarrow>
               (case indexOf fileContent (END_MARKER cfg) of
                  None \<Rightarrow> markers_missing cfg filePath
                | Some endIndex \<Rightarrow>
                    if startIndex > endIndex then markers_missing cfg filePath
                    else Inr (Some (js_replace fileContent pattern replacement)))))"

section \<open>A run of the action\<close>

text \<open>
  What a run does to the outside is recorded as a trace of events, beside the files of
  the working tree. \<^verbatim>\<open>core.debug\<close> output is left out.
\<close>

datatype event =
    Info jsstring
  | Warning jsstring
  | ErrorLog jsstring
  | SetFailed jsstring
  | ConsoleLog jsstring
  | ConsoleError jsstring
  | Exec jsstring
  | WriteFile jsstring jsstring
  | PullsList
  | PullsCreate
  | EnableAutoMerge

record world =
  files :: "jsstring \<Rightarrow> jsstring option"
  trace :: "event list"

text \<open>
  What the outside answers is fixed per run: the supplied inputs, the parsers of the
  file list, the response of the roster endpoint (status and parsed body), the
  \<^verbatim>\<open>RegExp\<close> constructor, which files can be written, the outcome of each shell command
  (no run issues the same command twice), and the answers of the pull-request service.
  \<open>printed\<close> is how the value of a bound identifier prints in a template literal.
\<close>

datatype exec_result = Exited jsstring jsstring | Failed jsstring jsstring jsstring

record env =
  supplied :: "jsstring \<Rightarrow> jsstring option"
  yaml_load :: "jsstring \<Rightarrow> js_error + json"
  JSON_parse :: "jsstring \<Rightarrow> js_error + json"
  fetch :: "js_error + nat \<times> (js_error + json)"
  RegExp :: "jsstring \<Rightarrow> js_error + regexp"
  writable :: "jsstring \<Rightarrow> bool"
  shell :: "jsstring \<Rightarrow> exec_result"
  Octokit :: "js_error option"
  octokit_context :: "json option"
  pulls_list :: "js_error + jsstring list"
  pulls_create :: "js_error + jsstring \<times> jsstring"
  graphql :: "js_error option"
  printed :: "string \<Rightarrow> jsstring"

text \<open>
  An asynchronous computation: from a world to its result, a thrown error (\<open>Inl\<close>) or a
  value, and the world after it.
\<close>

type_synonym 'a io = "world \<Rightarrow> (js_error + 'a) \<times> world"

definition ret :: "'a \<Rightarrow> 'a io" where
  "ret x = (\<lambda>w. (Inr x, w))"

definition throw :: "js_error \<Rightarrow> 'a io" where
  "throw e = (\<lambda>w. (Inl e, w))"

definition lift :: "js_error + 'a \<Rightarrow> 'a io" where
  "lift r = (\<lambda>w. (r, w))"

definition io_bind :: "'a io \<Rightarrow> ('a \<Rightarrow> 'b io) \<Rightarrow> 'b io" where
  "io_bind m f = (\<lambda>w. case m w of (Inl e, w') \<Rightarrow> (Inl e, w') | (Inr x, w') \<Rightarrow> f x w')"

definition io_seq :: "'a io \<Rightarrow> 'b io \<Rightarrow> 'b io" where
  "io_seq m n = io_bind m (\<lambda>_. n)"

definition try_catch :: "'a io \<Rightarrow> (js_error \<Rightarrow> 'a io) \<Rightarrow> 'a io" where
  "try_catch m h = (\<lambda>w. case m w of (Inl e, w') \<Rightarrow> h e w' | (Inr x, w') \<Rightarrow> (Inr x, w'))"

definition emit :: "event \<Rightarrow> unit io" where
  "emit ev = (\<lambda>w. (Inr (), w\<lparr>trace := trace w @ [ev]\<rparr>))"

text \<open>\<^verbatim>\<open>fs.writeFile(filePath, content)\<close>.\<close>

definition writeFile :: "env \<Rightarrow> json \<Rightarrow> jsstring \<Rightarrow> unit io" where
  "writeFile env filePath content =
     (case filePath of
        JStr path \<Rightarrow>
          if writable env path
          then (\<lambda>w. (Inr (), w\<lparr>files := (files w)(path \<mapsto> content),
                                  trace := trace w @ [WriteFile path content]\<rparr>))
          else throw (Error (js ''EACCES: permission denied, open '' @ [quote] @ path @ [quote]))
      | _ \<Rightarrow> throw (TypeError (js ''The path argument must be of type string'')))"

text \<open>
  \<^verbatim>\<open>execAsync\<close>: the promisified \<^verbatim>\<open>exec\<close> of the first and third variants, and the
  wrapper of the second, which logs a failed command before it throws again. The value
  is the command's standard output.
\<close>

definition execAsync :: "env \<Rightarrow> jsstring \<Rightarrow> jsstring io" where
  "execAsync env command =
     io_seq (emit (Exec command))
       (case shell env command of
          Exited out err \<Rightarrow> ret out
        | Failed msg out err \<Rightarrow> throw (Error msg))"

definition execAsync2 :: "env \<Rightarrow> jsstring \<Rightarrow> jsstring io" where
  "execAsync2 env command =
     io_seq (emit (Exec command))
       (case shell env command of
          Exited out err \<Rightarrow> ret out
        | Failed msg out err \<Rightarrow>
            io_seq (emit (ErrorLog (js ''Command failed: '' @ command)))
           (io_seq (emit (ErrorLog (js ''Error message: '' @ msg)))
           (io_seq (if out \<noteq> [] then emit (ErrorLog (js ''Error stdout: '' @ out)) else ret ())
           (io_seq (if err \<noteq> [] then emit (ErrorLog (js ''Error stderr: '' @ err)) else ret ())
           (throw (Error msg))))))"

text \<open>\<^verbatim>\<open>fetchSupporterData\<close>: \<^verbatim>\<open>res.ok\<close> is a status from 200 to 299.\<close>

definition fetchSupporterData :: "env \<Rightarrow> json io" where
  "fetchSupporterData env =
     io_bind (lift (fetch env)) (\<lambda>(status, body).
       if \<not> (200 \<le> status \<and> status \<le> 299) then throw (Error (js ''HTTP '' @ show_nat status))
       else lift body)"

text \<open>
  The head of \<^verbatim>\<open>main\<close>: the list of files, parsed by \<^verbatim>\<open>yaml.load\<close> (first and second
  variant) or \<^verbatim>\<open>JSON.parse\<close> (third).
\<close>

definition files_input :: "env \<Rightarrow> jsstring" where
  "files_input env =
     (let input = getInput (supplied env) (js ''files-to-update'')
      in if input = [] then js ''[]'' else input)"

definition files_to_update :: "env \<Rightarrow> (jsstring \<Rightarrow> js_error + json) \<Rightarrow> json list io" where
  "files_to_update env load =
     io_bind (lift (load (files_input env))) (\<lambda>filesToUpdate.
       case filesToUpdate of
         JArr (f # fs) \<Rightarrow> ret (f # fs)
       | _ \<Rightarrow> throw (Error (js ''No files specified in '' @ [quote] @ js ''files-to-update''
                             @ [quote] @ js ''.'')))"

definition setupGitBranch1 :: "env \<Rightarrow> jsstring \<Rightarrow> unit io" where
  "setupGitBranch1 env branchName =
     io_seq (execAsync env (js ''git checkout -B '' @ branchName))
    (io_seq (execAsync env (js ''git reset --hard origin/main'')) (ret ()))"

definition setupGitBranch2 :: "env \<Rightarrow> jsstring \<Rightarrow> unit io" where
  "setupGitBranch2 env branchName =
     io_seq (emit (Info (js ''Setting up git branch: '' @ branchName)))
       (try_catch
          (io_seq (execAsync2 env (js ''git checkout -B '' @ branchName))
                  (emit (Info (js ''Successfully checked out branch: '' @ branchName))))
          (\<lambda>error.
             io_seq (emit (SetFailed (js ''Failed to setup git branch: '' @ message error)))
                    (throw error)))"

definition setupGitBranch3 :: "env \<Rightarrow> jsstring \<Rightarrow> unit io" where
  "setupGitBranch3 env branchName =
     try_catch
       (io_seq (execAsync env (js ''git rev-parse --verify '' @ branchName))
       (io_seq (execAsync env (js ''git checkout '' @ branchName))
       (io_seq (execAsync env (js ''git pull origin '' @ branchName)) (ret ()))))
       (\<lambda>_. io_seq (execAsync env (js ''git checkout -b '' @ branchName)) (ret ()))"

text \<open>
  The three script variants differ in a few statements only; where they share a
  function, the variant is a parameter. The third variant logs to the console.
\<close>

datatype variant = First | Second | Third

definition info :: "variant \<Rightarrow> jsstring \<Rightarrow> unit io" where
  "info v msg = emit (if v = Third then ConsoleLog msg else Info msg)"

text \<open>
  One round of the loop over the files, from \<^verbatim>\<open>changesMade\<close> before it to
  \<^verbatim>\<open>changesMade\<close> after it. In \<^verbatim>\<open>if (updatedContent)\<close>, \<^verbatim>\<open>null\<close> and the empty string are
  falsy. The second variant logs the file it starts on and warns when
  \<^verbatim>\<open>updateFileContent\<close> returns \<^verbatim>\<open>null\<close>. Each template literal \<^verbatim>\<open>${filePath}\<close> converts
  the entry to a string where it stands, the one of the \<^verbatim>\<open>catch\<close> block outside the
  \<^verbatim>\<open>try\<close>; the second variant's debug line in \<^verbatim>\<open>updateFileContent\<close> repeats a conversion
  that the log line before the call has made.
\<close>

definition process_file ::
  "variant \<Rightarrow> env \<Rightarrow> config \<Rightarrow> regexp \<Rightarrow> jsstring \<Rightarrow> json \<Rightarrow> bool \<Rightarrow> bool io" where
  "process_file v env cfg pattern replacement filePath changesMade =
     try_catch
       (io_seq (if v = Second
                then io_bind (lift (toString filePath)) (\<lambda>path.
                       emit (Info (js ''Processing file: '' @ path)))
                else ret ())
       (io_bind (\<lambda>w. (updateFileContent cfg (files w) filePath pattern replacement, w))
          (\<lambda>updatedContent.
             io_seq (if v = Second \<and> updatedContent = None
                     then io_bind (lift (toString filePath)) (\<lambda>path.
                            emit (Warning (js ''Markers not found in '' @ path
                                           @ js '', skipping'')))
                     else ret ())
               (case updatedContent of
                  None \<Rightarrow> ret changesMade
                | Some content \<Rightarrow>
                    if content \<noteq> [] then
                      io_seq (writeFile env filePath content)
                     (io_bind (lift (toString filePath)) (\<lambda>path.
                      io_seq (info v (js ''Updated '' @ path @ js '' with supporter names.''))
                             (ret True)))
                    else ret changesMade))))
       (\<lambda>err.
          io_bind (lift (toString filePath)) (\<lambda>path.
          io_seq (emit ((if v = Third then ConsoleError else ErrorLog)
                          (js ''Failed to process '' @ path @ js '': '' @ message err)))
                 (ret changesMade)))"

fun process_files ::
  "variant \<Rightarrow> env \<Rightarrow> config \<Rightarrow> regexp \<Rightarrow> jsstring \<Rightarrow> json list \<Rightarrow> bool \<Rightarrow> bool io" where
  "process_files v env cfg pattern replacement [] changesMade = ret changesMade"
| "process_files v env cfg pattern replacement (filePath # rest) changesMade =
     io_bind (process_file v env cfg pattern replacement filePath changesMade)
             (process_files v env cfg pattern replacement rest)"

text \<open>
  \<^verbatim>\<open>createOrUpdatePR\<close> of the first and second variants; the result of
  \<^verbatim>\<open>pulls.create\<close> is the new pull request's \<^verbatim>\<open>node_id\<close> and \<^verbatim>\<open>html_url\<close>, the result of
  \<^verbatim>\<open>pulls.list\<close> the \<^verbatim>\<open>html_url\<close> of each pull request found.
\<close>

definition fails :: "js_error option \<Rightarrow> unit io" where
  "fails r = (case r of Some e \<Rightarrow> throw e | None \<Rightarrow> ret ())"

definition createOrUpdatePR :: "variant \<Rightarrow> env \<Rightarrow> jsstring \<Rightarrow> jsstring \<Rightarrow> unit io" where
  "createOrUpdatePR v env branchName owner_repo =
     io_seq (if v = Second
             then emit (Info (js ''Creating/updating PR for branch '' @ branchName @ js '' in ''
                              @ owner_repo))
             else ret ())
    (io_seq (emit PullsList)
    (io_bind (lift (pulls_list env)) (\<lambda>pullRequests.
       if pullRequests = [] then
         io_seq (if v = Second
                 then emit (Info (js ''Creating new PR for branch '' @ branchName))
                 else ret ())
        (io_seq (emit PullsCreate)
        (io_bind (lift (pulls_create env)) (\<lambda>(node_id, html_url).
           io_seq
             (try_catch
                (io_seq (emit EnableAutoMerge)
                (io_seq (fails (graphql env))
                        (emit (Info (js ''Auto-merge enabled for PR: '' @ html_url)))))
                (\<lambda>error.
                   emit (Warning (js ''Failed to enable auto-merge: '' @ message error))))
             (emit (Info (js ''Pull request created: '' @ html_url))))))
       else
         emit (Info (if v = Second
                     then js ''Pull request already exists: '' @ hd pullRequests
                     else js ''Pull request already exists.'')))))"

text \<open>The third variant's \<^verbatim>\<open>createOrUpdatePR\<close> reads \<^verbatim>\<open>octokit.context.repo\<close> first.\<close>

definition createOrUpdatePR3 :: "env \<Rightarrow> jsstring \<Rightarrow> unit io" where
  "createOrUpdatePR3 env branchName =
     io_bind (lift (get_prop (octokit_context env) (js ''repo''))) (\<lambda>_.
     io_seq (emit PullsList)
    (io_bind (lift (pulls_list env)) (\<lambda>pullRequests.
       if pullRequests = [] then
         io_seq (emit PullsCreate)
        (io_bind (lift (pulls_create env)) (\<lambda>(node_id, html_url).
           emit (ConsoleLog (js ''Pull request created: '' @ html_url))))
       else emit (ConsoleLog (js ''Pull request already exists.'')))))"

text \<open>\<^verbatim>\<open>core.getInput("git-email") || "actions@github.com"\<close>.\<close>

definition gitEmail :: "env \<Rightarrow> jsstring" where
  "gitEmail env =
     (let input = getInput (supplied env) (js ''git-email'')
      in if input = [] then js ''actions@github.com'' else input)"

definition git_config_name :: jsstring where
  "git_config_name = js ''git config user.name '' @ [dq] @ js ''GitHub Actions Bot'' @ [dq]"

definition git_config_email :: "env \<Rightarrow> jsstring" where
  "git_config_email env = js ''git config user.email '' @ [dq] @ gitEmail env @ [dq]"

definition git_commit :: jsstring where
  "git_commit = js ''git commit -m '' @ [dq] @ js ''docs: updated patrons list'' @ [dq]"

text \<open>
  \<^verbatim>\<open>process.env.GITHUB_REPOSITORY?.split('/')\<close>, printed as
  \<^verbatim>\<open>`${owner}/${repo}`\<close> by the second variant.
\<close>

fun split_on :: "jschar \<Rightarrow> jsstring \<Rightarrow> jsstring list" where
  "split_on c [] = [[]]"
| "split_on c (x # xs) =
     (if x = c then [] # split_on c xs
      else (case split_on c xs of p # ps \<Rightarrow> (x # p) # ps | [] \<Rightarrow> [[x]]))"

definition owner_and_repo :: "jsstring option \<Rightarrow> jsstring" where
  "owner_and_repo repository =
     (case repository of
        None \<Rightarrow> js ''undefined/undefined''
      | Some r \<Rightarrow>
          (case split_on 0x2F r of
             owner # repo # _ \<Rightarrow> owner @ js ''/'' @ repo
           | [owner] \<Rightarrow> owner @ js ''/undefined''
           | [] \<Rightarrow> js ''undefined/undefined''))"

subsection \<open>The first variant\<close>

text \<open>
  The identifiers bound where the \<^verbatim>\<open>catch\<close> block of the first variant's \<^verbatim>\<open>main\<close>
  stands: the imports, the declarations of the module, and the block's own parameter
  (the globals of the platform have other names). The \<^verbatim>\<open>const\<close> and \<^verbatim>\<open>let\<close> of the
  \<^verbatim>\<open>try\<close> block are out of scope there. Reading an identifier that is not bound throws
  a ReferenceError.
\<close>

definition main1_catch_scope :: "string list" where
  "main1_catch_scope =
     [''fs'', ''exec'', ''promisify'', ''core'', ''Octokit'', ''yaml'', ''execAsync'',
      ''CONFIG'', ''fetchSupporterData'', ''updateFileContent'', ''setupGitBranch'',
      ''createOrUpdatePR'', ''main'', ''error'']"

definition read_identifier :: "env \<Rightarrow> string list \<Rightarrow> string \<Rightarrow> jsstring io" where
  "read_identifier env scope x =
     (if x \<in> set scope then ret (printed env x) else throw (not_defined (js x)))"

text \<open>
  \<^verbatim>\<open>await execAsync(`git checkout ${originalBranch}`);\<close>
  \<^verbatim>\<open>await execAsync(`git branch -D ${branchName}`);\<close>
\<close>

definition recovery1 :: "env \<Rightarrow> unit io" where
  "recovery1 env =
     io_bind (read_identifier env main1_catch_scope ''originalBranch'') (\<lambda>originalBranch.
     io_seq (execAsync env (js ''git checkout '' @ originalBranch))
    (io_bind (read_identifier env main1_catch_scope ''branchName'') (\<lambda>branchName.
     io_seq (execAsync env (js ''git branch -D '' @ branchName)) (ret ()))))"

definition no_supporters :: jsstring where
  "no_supporters = js ''No supporters found in the supporter data.''"

definition no_changes :: jsstring where
  "no_changes = js ''No changes detected. Skipping pull request creation.''"

text \<open>The body of \<^verbatim>\<open>if (changesMade)\<close>: commit, push, pull request.\<close>

definition publish1 :: "env \<Rightarrow> unit io" where
  "publish1 env =
     io_seq (execAsync env git_config_name)
    (io_seq (execAsync env (git_config_email env))
    (io_seq (execAsync env (js ''git add .''))
    (io_seq (execAsync env git_commit)
    (io_seq (execAsync env (js ''git push -f origin '' @ BRANCH_NAME))
    (io_seq (fails (Octokit env))
            (createOrUpdatePR First env BRANCH_NAME []))))))"

definition main1_try :: "env \<Rightarrow> unit io" where
  "main1_try env =
     (let cfg = CONFIG (supplied env) in
      io_bind (files_to_update env (yaml_load env)) (\<lambda>filesToUpdate.
      io_bind (fetchSupporterData env) (\<lambda>data.
      io_bind (lift (roster_names data)) (\<lambda>roster.
        case roster of
          None \<Rightarrow> emit (Warning no_supporters)
        | Some names \<Rightarrow>
            io_bind (lift (RegExp env (pattern_source cfg))) (\<lambda>pattern.
            io_seq (setupGitBranch1 env BRANCH_NAME)
           (io_bind (process_files First env cfg pattern (replacement_of cfg names)
                       filesToUpdate False) (\<lambda>changesMade.
              if changesMade then publish1 env else emit (Info no_changes))))))))"

definition main1 :: "env \<Rightarrow> unit io" where
  "main1 env =
     try_catch (main1_try env)
       (\<lambda>error. io_seq (emit (SetFailed (message error))) (recovery1 env))"

subsection \<open>The second variant\<close>

definition commit2 :: "env \<Rightarrow> unit io" where
  "commit2 env =
     try_catch
       (io_seq (emit (Info (js ''Attempting to commit changes'')))
       (io_seq (execAsync2 env git_commit)
               (emit (Info (js ''Commit successful'')))))
       (\<lambda>error.
          io_seq (emit (ErrorLog (js ''Git commit failed'')))
         (io_bind (try_catch (execAsync2 env (js ''git diff --staged --name-only''))
                             (\<lambda>e. ret []))
            (\<lambda>diffCheck.
               io_seq (if trim diffCheck = []
                       then emit (Warning (js ''No changes to commit - this might be why the commit failed''))
                       else ret ())
                      (throw error))))"

definition completed :: "unit io" where
  "completed = emit (Info (js ''Process completed successfully''))"

text \<open>
  The body of \<^verbatim>\<open>if (changesMade)\<close> with the statement that follows the conditional: the
  staging status is asked for after \<^verbatim>\<open>git add\<close>, and an empty one ends \<^verbatim>\<open>main\<close>.
\<close>

definition publish2 :: "env \<Rightarrow> jsstring option \<Rightarrow> unit io" where
  "publish2 env repository =
     io_seq (emit (Info (js ''Setting up git configuration with email: '' @ gitEmail env)))
    (io_seq (execAsync2 env git_config_name)
    (io_seq (execAsync2 env (git_config_email env))
    (io_seq (execAsync2 env (js ''git status''))
    (io_seq (execAsync2 env (js ''git add .''))
    (io_bind (execAsync2 env (js ''git status --porcelain'')) (\<lambda>porcelainStatus.
       if trim porcelainStatus = [] then
         emit (Info (js ''No changes to commit, skipping commit and push operations''))
       else
         io_seq (emit (Info (js ''Changes detected: ''
                             @ show_nat (length (split_on 0x0A porcelainStatus))
                             @ js '' files modified'')))
        (io_seq (commit2 env)
        (io_seq (emit (Info (js ''Pushing to remote branch: '' @ BRANCH_NAME)))
        (io_seq (execAsync2 env (js ''git push -f origin '' @ BRANCH_NAME))
        (io_seq (emit (Info (js ''Push successful'')))
        (io_seq (fails (Octokit env))
        (io_seq (createOrUpdatePR Second env BRANCH_NAME (owner_and_repo repository))
                completed))))))))))))"

definition main2_try :: "env \<Rightarrow> jsstring option \<Rightarrow> unit io" where
  "main2_try env repository =
     (let cfg = CONFIG (supplied env) in
      io_seq (emit (Info (js ''Starting patron update process'')))
     (io_bind (files_to_update env (yaml_load env)) (\<lambda>filesToUpdate.
      io_bind (fetchSupporterData env) (\<lambda>data.
      io_bind (lift (roster_names data)) (\<lambda>roster.
        case roster of
          None \<Rightarrow> emit (Warning no_supporters)
        | Some names \<Rightarrow>
            io_bind (lift (RegExp env (pattern_source cfg))) (\<lambda>pattern.
            io_seq (setupGitBranch2 env BRANCH_NAME)
           (io_bind (process_files Second env cfg pattern (replacement_of cfg names)
                       filesToUpdate False) (\<lambda>changesMade.
              if changesMade then publish2 env repository
              else io_seq (emit (Info no_changes)) completed))))))))"

definition main2 :: "env \<Rightarrow> jsstring option \<Rightarrow> unit io" where
  "main2 env repository =
     try_catch (main2_try env repository)
       (\<lambda>error.
          io_seq (emit (ErrorLog (js ''Failed with error: '' @ message error)))
                 (emit (SetFailed (message error))))"

subsection \<open>The third variant\<close>

definition publish3 :: "env \<Rightarrow> unit io" where
  "publish3 env =
     io_seq (execAsync env git_config_name)
    (io_seq (execAsync env (git_config_email env))
    (io_seq (execAsync env (js ''git add .''))
    (io_seq (execAsync env git_commit)
    (io_seq (execAsync env (js ''git push origin '' @ BRANCH_NAME))
    (io_seq (fails (Octokit env))
            (createOrUpdatePR3 env BRANCH_NAME))))))"

definition main3_try :: "env \<Rightarrow> unit io" where
  "main3_try env =
     (let cfg = CONFIG (supplied env) in
      io_bind (files_to_update env (JSON_parse env)) (\<lambda>filesToUpdate.
      io_bind (fetchSupporterData env) (\<lambda>data.
      io_bind (lift (roster_names3 data)) (\<lambda>names.
      io_bind (lift (RegExp env (pattern_source cfg))) (\<lambda>pattern.
      io_seq (setupGitBranch3 env BRANCH_NAME)
     (io_bind (process_files Third env cfg pattern (replacement_of cfg names)
                 filesToUpdate False) (\<lambda>changesMade.
        if changesMade then publish3 env else emit (ConsoleLog no_changes))))))))"

definition main3 :: "env \<Rightarrow> unit io" where
  "main3 env = try_catch (main3_try env) (\<lambda>error. emit (SetFailed (message error)))"

text \<open>
  A run starts on the files of the working tree with an empty trace. It has failed when
  \<^verbatim>\<open>core.setFailed\<close> was called or the promise of \<^verbatim>\<open>main\<close> was rejected.
\<close>

definition start :: "(jsstring \<Rightarrow> jsstring option) \<Rightarrow> world" where
  "start fs = \<lparr>files = fs, trace = []\<rparr>"

fun is_SetFailed :: "event \<Rightarrow> bool" where
  "is_SetFailed (SetFailed m) = True"
| "is_SetFailed _ = False"

fun is_WriteFile :: "event \<Rightarrow> bool" where
  "is_WriteFile (WriteFile path content) = True"
| "is_WriteFile _ = False"

definition run_failed :: "(js_error + unit) \<times> world \<Rightarrow> bool" where
  "run_failed r \<longleftrightarrow> isl (fst r) \<or> list_ex is_SetFailed (trace (snd r))"

text \<open>
  Two results agree in outcome when both are thrown errors or both are values, and the
  failure signal was raised in both traces or in neither.
\<close>

definition same_outcome :: "(js_error + 'a) \<times> world \<Rightarrow> (js_error + 'a) \<times> world \<Rightarrow> bool" where
  "same_outcome r1 r2 \<longleftrightarrow>
     isl (fst r1) = isl (fst r2)
     \<and> list_ex is_SetFailed (trace (snd r1)) = list_ex is_SetFailed (trace (snd r2))"

section \<open>Example inputs\<close>

text \<open>
  The roster of the specification's example:
  \<^verbatim>\<open>{"tiers":[{"members":[{"name":"A"}]},{"members":[{"name":"B"},{"name":"C"}]}]}\<close>.
\<close>

definition member :: "string \<Rightarrow> json" where
  "member n = JObj [(js ''name'', JStr (js n))]"

definition tier :: "json list \<Rightarrow> json" where
  "tier ms = JObj [(js ''members'', JArr ms)]"

definition example_roster :: json where
  "example_roster = JObj [(js ''tiers'', JArr [tier [member ''A''], tier [member ''B'', member ''C'']])]"

text \<open>
  The default markers, and a file with two marker pairs before and after the first
  pair is filled with the names of the example roster's last tier.
\<close>

definition default_start :: jsstring where
  "default_start = js ''<!-- marker:patrons-start -->''"

definition default_end :: jsstring where
  "default_end = js ''<!-- marker:patrons-end -->''"

definition default_pattern :: regexp where
  "default_pattern = exec [map lit default_start @ between_terms @ map lit default_end]"

definition README :: jsstring where
  "README = js ''README.md''"

definition demo_names :: jsstring where
  "demo_names = js ''B'' @ SEPARATOR @ js ''C''"

definition demo_text :: jsstring where
  "demo_text =
     js ''# Demo'' @ [0x0A] @ default_start @ js ''old'' @ default_end @ [0x0A]
     @ default_start @ js ''kept'' @ default_end @ [0x0A]"

definition demo_updated :: jsstring where
  "demo_updated =
     js ''# Demo'' @ [0x0A] @ default_start @ [0x0A, 0x0A] @ demo_names @ [0x0A, 0x0A]
     @ default_end @ [0x0A] @ default_start @ js ''kept'' @ default_end @ [0x0A]"

definition tree_of :: "jsstring \<Rightarrow> jsstring \<Rightarrow> jsstring option" where
  "tree_of content = (\<lambda>path. if path = README then Some content else None)"

text \<open>
  A file without markers, a roster without tiers, and the message of the run that has no
  file to update.
\<close>

definition plain_text :: jsstring where
  "plain_text = js ''# Demo'' @ [0x0A]"

definition no_tiers :: json where
  "no_tiers = JObj [(js ''tiers'', JArr [])]"

definition no_files_specified :: jsstring where
  "no_files_specified =
     js ''No files specified in '' @ [quote] @ js ''files-to-update'' @ [quote] @ js ''.''"

text \<open>
  A run on the defaults: one file to update, the example roster, every shell command and
  every call of the pull-request service succeeding, no open pull request, and the
  \<^verbatim>\<open>RegExp\<close> constructor of the fragment.
\<close>

definition example_env :: env where
  "example_env =
     \<lparr>supplied = (\<lambda>name. None),
      yaml_load = (\<lambda>input. Inr (JArr [JStr README])),
      JSON_parse = (\<lambda>input. Inr (JArr [JStr README])),
      fetch = Inr (200, Inr example_roster),
      RegExp = (\<lambda>source. the (RegExp_fragment source)),
      writable = (\<lambda>path. True),
      shell = (\<lambda>command. Exited [] []),
      Octokit = None,
      octokit_context = None,
      pulls_list = Inr [],
      pulls_create = Inr (js ''PR_kwDOA'', js ''https://github.com/meza/demo/pull/1''),
      graphql = None,
      printed = (\<lambda>x. [])\<rparr>"

text \<open>
  Two more runs: one in which enabling auto-merge is refused, and one on a file that
  already holds the current names, so that staging finds nothing and \<^verbatim>\<open>git commit\<close>
  fails.
\<close>

definition merge_refused :: js_error where
  "merge_refused = Error (js ''Pull request Auto merge is not allowed for this repository'')"

definition refusing_env :: env where
  "refusing_env = example_env\<lparr>graphql := Some merge_refused\<rparr>"

definition nothing_to_commit :: exec_result where
  "nothing_to_commit =
     Failed (js ''Command failed: '' @ git_commit)
            (js ''nothing to commit, working tree clean'') []"

definition unchanged_env :: env where
  "unchanged_env =
     example_env\<lparr>shell := (\<lambda>command. if command = git_commit then nothing_to_commit
                                    else Exited [] [])\<rparr>"

text \<open>
  A run in which the workflow supplies \<^verbatim>\<open>fail-on-missing-markers\<close>, and a file in which an
  end marker precedes the first marker pair.
\<close>

definition flag_inputs :: "jsstring \<Rightarrow> jsstring \<Rightarrow> jsstring option" where
  "flag_inputs flag name = (if name = js ''fail-on-missing-markers'' then Some flag else None)"

definition flagged_env :: "jsstring \<Rightarrow> env" where
  "flagged_env flag = example_env\<lparr>supplied := flag_inputs flag\<rparr>"

definition misordered_text :: jsstring where
  "misordered_text = default_end @ [0x0A] @ default_start @ js ''old'' @ default_end"

text \<open>
  Inputs on which the pattern or the replacement template is not read literally: markers
  with brackets, a supporter name with dollar signs, the name \<^verbatim>\<open>$&\<close>, and a supporter
  named like the end marker (with the file after one and after two substitutions).
\<close>

definition bracket_inputs :: "jsstring \<Rightarrow> jsstring option" where
  "bracket_inputs name =
     (if name = js ''start-marker'' then Some (js ''<!-- [patrons] -->'')
      else if name = js ''end-marker'' then Some (js ''<!-- [/patrons] -->'')
      else None)"

definition bracket_text :: jsstring where
  "bracket_text = js ''<!-- [patrons] -->old<!-- [/patrons] -->''"

definition spender :: jsstring where
  "spender = js ''Big $$ Spender''"

definition bracket_pattern :: regexp where
  "bracket_pattern =
     exec [map lit (js ''<!-- '') @ [Atom (Class False (map ILit (js ''patrons''))) One]
           @ map lit (js '' -->'') @ between_terms
           @ map lit (js ''<!-- '') @ [Atom (Class False (map ILit (js ''/patrons''))) One]
           @ map lit (js '' -->'')]"

definition dollar_amp :: jsstring where
  "dollar_amp = [dollar, 0x26]"





section \<open>Name extraction\<close>

lemma separated_by_Cons:
  "separated_by sep (x # xs) = x @ (if xs = [] then [] else sep @ separated_by sep xs)"
  by (cases xs) simp_all

lemma join_from_separated:
  "join_from sep (map Inr xs) k R =
     Inr (if xs = [] then R else (if 0 < k then R @ sep else R) @ separated_by sep xs)"
  by (induction xs arbitrary: k R) (simp_all add: separated_by_Cons)

lemma map_name_named:
  "list_all2 member_named ms ns \<Longrightarrow> map_name ms = Inr (map (\<lambda>n. Some (JStr n)) ns)"
  by (induction ms ns rule: list_all2_induct) (simp_all add: member_named_def)

lemma some_members_not_array_valid:
  "\<forall>t \<in> set tiers. tier_members t \<noteq> None \<Longrightarrow> some_members_not_array tiers = Inr False"
  by (induction tiers)
     (auto simp: tier_members_def split: sum.splits option.splits json.splits)

lemma last_tier_names_valid:
  assumes "tiers \<noteq> []" and "tier_members (last tiers) = Some ms"
    and "list_all2 member_named ms ns"
  shows "last_tier_names tiers = Inr (separated_by SEPARATOR ns)"
proof -
  have m: "get_prop (Some (last tiers)) (js ''members'') = Inr (Some (JArr ms))"
    using assms(2) by (auto simp: tier_members_def split: sum.splits option.splits json.splits)
  have e: "map (element_string \<circ> (\<lambda>n. Some (JStr n))) ns = map Inr ns"
    by (induction ns) simp_all
  show ?thesis
    using assms(1) m map_name_named [OF assms(3)]
    by (simp add: last_tier_names_def js_join_def e join_from_separated)
qed

text \<open>
  C7. For a roster whose \<^verbatim>\<open>tiers\<close> is a non-empty array of tiers with member arrays, and
  whose last tier's members carry the string names \<open>ns\<close>, the joined display string of
  every script variant is the names \<open>ns\<close> in document order with the separator (space,
  middle dot, space) between them
  (the last tier need not even be non-empty).
\<close>

theorem joined_names_last_tier:
  assumes "get_prop_opt (Some data) (js ''tiers'') = Some (JArr tiers)"
    and "tiers \<noteq> []"
    and "\<forall>t \<in> set tiers. tier_members t \<noteq> None"
    and "tier_members (last tiers) = Some ms"
    and "list_all2 member_named ms ns"
  shows "roster_names data = Inr (Some (separated_by SEPARATOR ns))
       \<and> roster_names3 data = Inr (separated_by SEPARATOR ns)"
  using assms(1,2) some_members_not_array_valid [OF assms(3)]
    last_tier_names_valid [OF assms(2,4,5)]
  by (simp add: roster_names_def roster_names3_def)

theorem joined_names_last_tier_witness:
  "roster_names example_roster = Inr (Some [0x42, 0x20, 0xB7, 0x20, 0x43])
   \<and> roster_names3 example_roster = Inr [0x42, 0x20, 0xB7, 0x20, 0x43]"
proof -
  let ?tiers = "[tier [member ''A''], tier [member ''B'', member ''C'']]"
  have 1: "get_prop_opt (Some example_roster) (js ''tiers'') = Some (JArr ?tiers)"
    by (simp add: example_roster_def)
  have 2: "?tiers \<noteq> []"
    by simp
  have 3: "\<forall>t \<in> set ?tiers. tier_members t \<noteq> None"
    by (simp add: tier_members_def tier_def)
  have 4: "tier_members (last ?tiers) = Some [member ''B'', member ''C'']"
    by (simp add: tier_members_def tier_def)
  have 5: "list_all2 member_named [member ''B'', member ''C''] [js ''B'', js ''C'']"
    by (simp add: member_named_def member_def)
  show ?thesis
    using joined_names_last_tier [OF 1 2 3 4 5] by (simp add: SEPARATOR_def js_def)
qed

section \<open>Asynchronous computations\<close>

lemmas io_defs =
  io_bind_def io_seq_def ret_def throw_def lift_def try_catch_def emit_def fails_def

section \<open>Patterns of plain markers\<close>

lemma plain_char:
  assumes "\<not> is_syntax_char c"
  shows "c \<noteq> 0x7C" "c \<noteq> 0x5E" "c \<noteq> dollar" "c \<noteq> 0x2E" "c \<noteq> 0x2A" "c \<noteq> 0x2B" "c \<noteq> 0x3F"
    "c \<noteq> 0x5B" "c \<noteq> backslash"
  using assms by (auto simp: is_syntax_char_def js_def dollar_def)

lemma parse_plain:
  "plain s \<Longrightarrow> parse Top cur done (s @ r) = parse Top (rev (map lit s) @ cur) done r"
proof (induction s arbitrary: cur)
  case Nil
  show ?case by simp
next
  case (Cons c s)
  then have c: "\<not> is_syntax_char c" and s: "plain s"
    by (simp_all add: plain_def)
  show ?case
    using Cons.IH [OF s] by (simp add: plain_char [OF c] c lit_def)
qed

lemma parse_between:
  "parse Top cur done (between_markers @ r) = parse Top (rev between_terms @ cur) done r"
  by (simp add: between_markers_def between_terms_def js_def backslash_def dollar_def)

lemma parse_pattern_source:
  assumes "plain s" and "plain e"
  shows "parse Top [] [] (s @ between_markers @ e) = Parsed [map lit s @ between_terms @ map lit e]"
  using parse_plain [OF assms(1), of "[]" "[]" "between_markers @ e"]
    parse_plain [OF assms(2), of _ "[]" "[]"]
  by (simp add: parse_between)

section \<open>Matching between plain markers\<close>

lemma indexOf_Some_iff:
  "indexOf r p = Some k \<longleftrightarrow>
     k \<le> length r \<and> prefix p (drop k r) \<and> (\<forall>k'<k. \<not> prefix p (drop k' r))"
proof (induction r arbitrary: k)
  case Nil
  show ?case by auto
next
  case (Cons c r)
  show ?case
  proof (cases "prefix p (c # r)")
    case True
    then show ?thesis by (cases k) auto
  next
    case False
    show ?thesis
    proof (cases k)
      case 0
      with False show ?thesis by simp
    next
      case (Suc k1)
      have "(\<forall>k'<Suc k1. \<not> prefix p (drop k' (c # r))) \<longleftrightarrow> (\<forall>k'<k1. \<not> prefix p (drop k' r))"
        using False by (auto simp: less_Suc_eq_0_disj)
      with False Suc Cons.IH [of k1] show ?thesis by auto
    qed
  qed
qed

lemma match_lit:
  "match_terms (map lit s @ ts) a r =
     (if prefix s r then match_terms ts (a \<and> s = []) (drop (length s) r) else None)"
proof (induction s arbitrary: a r)
  case Nil
  show ?case by simp
next
  case (Cons c s)
  show ?case
  proof (cases r)
    case Nil
    then show ?thesis by (simp add: lit_def)
  next
    case (Cons d r')
    with Cons.IH [of False r'] show ?thesis by (auto simp: lit_def)
  qed
qed

lemma match_lit_only:
  "match_terms (map lit e) a r = (if prefix e r then Some (drop (length e) r) else None)"
  using match_lit [of e "[]" a r] by simp

lemma space_no_prefix:
  "e \<noteq> [] \<Longrightarrow> \<not> is_space (hd e) \<Longrightarrow> is_space c \<Longrightarrow> \<not> prefix e (c # r)"
  by (cases e) auto

lemma match_space_then_lit:
  assumes "e \<noteq> []" and "\<not> is_space (hd e)"
  shows "match_terms (Atom Space (Star Greedy) # map lit e) a r =
           (if prefix e (dropWhile is_space r)
            then Some (drop (length e) (dropWhile is_space r)) else None)"
proof (induction r arbitrary: a)
  case Nil
  show ?case using assms by (simp add: match_lit_only)
next
  case (Cons c r)
  show ?case
    using Cons.IH [of False] space_no_prefix [OF assms, of c r]
    by (simp add: match_lit_only)
qed

lemma indexOf_after_spaces:
  assumes "e \<noteq> []" and "\<not> is_space (hd e)"
  shows "prefix e (dropWhile is_space r) \<Longrightarrow> indexOf r e = Some (length (takeWhile is_space r))"
proof (induction r)
  case Nil
  then show ?case using assms by simp
next
  case (Cons c r)
  then show ?case using space_no_prefix [OF assms, of c r] by auto
qed

lemma prefix_no_spaces:
  assumes "e \<noteq> []" and "\<not> is_space (hd e)" and "prefix e r"
  shows "dropWhile is_space r = r"
  using assms by (cases e; cases r) auto

lemma first_end_Cons:
  "\<not> prefix e (c # r) \<Longrightarrow> first_end e (c # r) = first_end e r"
  by (simp add: first_end_def split: option.splits)

lemma match_lazy_then_space_then_lit:
  assumes "e \<noteq> []" and "\<not> is_space (hd e)"
  shows "match_terms (Atom (Class False [ISpace, INonSpace]) (Star Lazy)
                      # Atom Space (Star Greedy) # map lit e) a r = first_end e r"
proof (induction r arbitrary: a)
  case Nil
  show ?case using assms by (simp add: match_lit_only first_end_def)
next
  case (Cons c r)
  define W where "W = match_terms (Atom Space (Star Greedy) # map lit e) a (c # r)"
  have step: "match_terms (Atom (Class False [ISpace, INonSpace]) (Star Lazy)
                           # Atom Space (Star Greedy) # map lit e) a (c # r)
              = (case W of
                   Some y \<Rightarrow> Some y
                 | None \<Rightarrow> match_terms (Atom (Class False [ISpace, INonSpace]) (Star Lazy)
                                        # Atom Space (Star Greedy) # map lit e) False r)"
    unfolding W_def by simp
  have W: "W = (if prefix e (dropWhile is_space (c # r))
                then Some (drop (length e) (dropWhile is_space (c # r))) else None)"
    unfolding W_def by (rule match_space_then_lit [OF assms])
  show ?case
  proof (cases "prefix e (dropWhile is_space (c # r))")
    case True
    have "first_end e (c # r) = Some (drop (length e) (dropWhile is_space (c # r)))"
      using indexOf_after_spaces [OF assms True]
      by (simp add: first_end_def add.commute dropWhile_eq_drop
          del: indexOf.simps dropWhile.simps takeWhile.simps)
    then show ?thesis
      unfolding step W using True by (simp del: dropWhile.simps)
  next
    case False
    then have np: "\<not> prefix e (c # r)"
      using prefix_no_spaces [OF assms] by metis
    show ?thesis
      unfolding step W using False Cons.IH [of False] first_end_Cons [OF np]
      by (simp del: dropWhile.simps)
  qed
qed

lemma match_between:
  assumes "e \<noteq> []" and "\<not> is_space (hd e)"
  shows "match_terms (between_terms @ map lit e) a r = first_end e r"
proof (induction r arbitrary: a)
  case Nil
  show ?case
    using assms by (simp add: between_terms_def match_lit_only first_end_def)
next
  case (Cons c r)
  define L where "L = match_terms (Atom (Class False [ISpace, INonSpace]) (Star Lazy)
                                   # Atom Space (Star Greedy) # map lit e) a (c # r)"
  have L: "L = first_end e (c # r)"
    unfolding L_def by (rule match_lazy_then_space_then_lit [OF assms])
  have step: "match_terms (between_terms @ map lit e) a (c # r)
              = (if is_space c
                 then (case match_terms (between_terms @ map lit e) False r of
                         Some y \<Rightarrow> Some y | None \<Rightarrow> L)
                 else L)"
    unfolding L_def by (simp add: between_terms_def)
  show ?case
  proof (cases "is_space c")
    case True
    have "first_end e (c # r) = first_end e r"
      using first_end_Cons [OF space_no_prefix [OF assms True]] .
    then show ?thesis
      unfolding step L using True Cons.IH [of False] by (simp split: option.splits)
  next
    case False
    then show ?thesis
      unfolding step L by simp
  qed
qed

lemma get_substitution_pattern_free:
  "pattern_free t \<Longrightarrow> get_substitution m b a t = t"
  by (induction m b a t rule: get_substitution.induct) auto

lemma pattern_free_after:
  "dollar \<notin> set a \<Longrightarrow> pattern_free (a @ b) = pattern_free b"
proof (induction a)
  case Nil
  show ?case by simp
next
  case (Cons x a)
  then show ?case
    by (cases "a @ b") auto
qed

lemma pattern_free_before:
  assumes "c \<noteq> dollar" and "c \<noteq> 0x26" and "c \<noteq> 0x60" and "c \<noteq> 0x27"
  shows "pattern_free (a @ c # b) = (pattern_free a \<and> pattern_free b)"
proof (induction a rule: pattern_free.induct)
  case 1
  show ?case
    using pattern_free_after [of "[c]" b] assms(1) by simp
next
  case (2 x)
  show ?case
    using pattern_free_after [of "[c]" b] assms by simp
next
  case (3 x d r)
  then show ?case by simp
qed

lemma search_finds_first:
  assumes ts: "\<And>a r. match_terms ts a r = (if prefix s r then first_end e (drop (length s) r) else None)"
  shows "indexOf r s = Some i0 \<Longrightarrow> first_end e (drop (i0 + length s) r) = Some y
         \<Longrightarrow> search [ts] i r = Some (i + i0, i + i0 + (length r - i0 - length y))"
proof (induction r arbitrary: i i0)
  case Nil
  then show ?case by (auto simp: ts split: if_splits)
next
  case (Cons c r)
  show ?case
  proof (cases "prefix s (c # r)")
    case True
    with Cons.prems show ?thesis by (simp add: ts)
  next
    case False
    with Cons.prems obtain i1 where i1: "i0 = Suc i1" "indexOf r s = Some i1"
      by auto
    with Cons.prems have "first_end e (drop (i1 + length s) r) = Some y"
      by simp
    from Cons.IH [OF i1(2) this, of "Suc i"] False i1 show ?thesis
      by (simp add: ts)
  qed
qed

lemma plain_no_dollar: "plain s \<Longrightarrow> dollar \<notin> set s"
  by (induction s) (auto simp: plain_def is_syntax_char_def js_def dollar_def)

lemma indexOf_within:
  assumes "indexOf r p = Some k"
  shows "k + length p \<le> length r" and "take k r @ p @ drop (k + length p) r = r"
proof -
  from assms have k: "k \<le> length r" and p: "prefix p (drop k r)"
    by (simp_all add: indexOf_Some_iff)
  from p obtain z where z: "drop k r = p @ z"
    by (auto simp: prefix_def)
  then have "length (drop k r) = length p + length z"
    by simp
  then show "k + length p \<le> length r"
    using k by simp
  have "drop (k + length p) r = drop (length p) (drop k r)"
    by (simp add: add.commute)
  also have "\<dots> = z"
    by (simp add: z)
  finally have "take k r @ p @ drop (k + length p) r = take k r @ drop k r"
    by (simp add: z)
  then show "take k r @ p @ drop (k + length p) r = r"
    by simp
qed

lemma exec_plain_markers:
  assumes "e \<noteq> []" and "\<not> is_space (hd e)"
    and "indexOf text s = Some i0" and "indexOf (drop (i0 + length s) text) e = Some k"
  shows "exec [map lit s @ between_terms @ map lit e] text
           = Some (i0, i0 + length s + k + length e)"
proof -
  let ?r = "drop (i0 + length s) text"
  have ts: "\<And>a r. match_terms (map lit s @ between_terms @ map lit e) a r
              = (if prefix s r then first_end e (drop (length s) r) else None)"
    by (simp add: match_lit match_between [OF assms(1,2)])
  have y: "first_end e ?r = Some (drop (k + length e) ?r)"
    using assms(4) by (simp add: first_end_def)
  have b1: "i0 + length s \<le> length text"
    using indexOf_within(1) [OF assms(3)] .
  have b2: "k + length e \<le> length text - (i0 + length s)"
    using indexOf_within(1) [OF assms(4)] by simp
  have "search [map lit s @ between_terms @ map lit e] 0 text
          = Some (0 + i0, 0 + i0 + (length text - i0 - length (drop (k + length e) ?r)))"
    by (rule search_finds_first [OF ts assms(3) y])
  moreover have "length text - i0 - length (drop (k + length e) ?r) = length s + k + length e"
    using b1 b2 by simp
  ultimately show ?thesis
    by (simp add: exec_def add.assoc)
qed

lemma replace_plain_markers:
  assumes "e \<noteq> []" and "\<not> is_space (hd e)" and "pattern_free template"
    and "indexOf text s = Some i0" and "indexOf (drop (i0 + length s) text) e = Some k"
  shows "js_replace text (exec [map lit s @ between_terms @ map lit e]) template
           = take i0 text @ template @ drop (i0 + length s + k + length e) text"
  by (simp add: js_replace_def exec_plain_markers [OF assms(1,2,4,5)]
      get_substitution_pattern_free [OF assms(3)])

lemma RegExp_plain_markers:
  assumes "plain (START_MARKER cfg)" and "plain (END_MARKER cfg)"
  shows "RegExp_fragment (pattern_source cfg)
           = Some (Inr (exec [map lit (START_MARKER cfg) @ between_terms
                              @ map lit (END_MARKER cfg)]))"
  by (simp add: RegExp_fragment_def pattern_source_def parse_pattern_source [OF assms])

lemma replacement_pattern_free:
  assumes "plain (START_MARKER cfg)" and "plain (END_MARKER cfg)" and "pattern_free names"
  shows "pattern_free (replacement_of cfg names)"
proof -
  have "pattern_free (END_MARKER cfg)"
    using pattern_free_after [OF plain_no_dollar [OF assms(2)], of "[]"] by simp
  then have "pattern_free (0x0A # END_MARKER cfg)"
    using pattern_free_after [of "[0x0A]" "END_MARKER cfg"] by (simp add: dollar_def)
  then have "pattern_free (names @ 0x0A # 0x0A # END_MARKER cfg)"
    using assms(3) by (simp add: pattern_free_before dollar_def)
  then have "pattern_free ([0x0A, 0x0A] @ names @ 0x0A # 0x0A # END_MARKER cfg)"
    by (subst pattern_free_after) (simp_all add: dollar_def)
  then show ?thesis
    unfolding replacement_of_def
    by (subst pattern_free_after [OF plain_no_dollar [OF assms(1)]]) simp
qed

lemma updateFileContent_plain_markers:
  assumes "plain (START_MARKER cfg)" and "plain (END_MARKER cfg)"
    and "END_MARKER cfg \<noteq> []" and "\<not> is_space (hd (END_MARKER cfg))"
    and "pattern_free names"
    and "RegExp_fragment (pattern_source cfg) = Some (Inr pattern)"
    and "fs path = Some text"
    and "indexOf text (START_MARKER cfg) = Some s"
    and "indexOf text (END_MARKER cfg) = Some j" and "s \<le> j"
    and "indexOf (drop (s + length (START_MARKER cfg)) text) (END_MARKER cfg) = Some k"
  shows "updateFileContent cfg fs (JStr path) pattern (replacement_of cfg names)
           = Inr (Some (take s text @ replacement_of cfg names
                        @ drop (s + length (START_MARKER cfg) + k + length (END_MARKER cfg)) text))"
proof -
  have p: "pattern = exec [map lit (START_MARKER cfg) @ between_terms @ map lit (END_MARKER cfg)]"
    using assms(6) RegExp_plain_markers [OF assms(1,2)] by simp
  show ?thesis
    using assms(7,8,9,10)
    by (simp add: updateFileContent_def readFile_def p
        replace_plain_markers [OF assms(3,4) replacement_pattern_free [OF assms(1,2,5)] assms(8,11)])
qed






section \<open>The default markers\<close>

lemma default_config:
  "START_MARKER (CONFIG (\<lambda>name. None)) = default_start"
  "END_MARKER (CONFIG (\<lambda>name. None)) = default_end"
  "FAIL_ON_MISSING_MARKERS (CONFIG (\<lambda>name. None))"
  by (simp_all add: CONFIG_def getInput_def action_defaults_def trim_def js_def is_space_def
      default_start_def default_end_def)

lemma default_markers_plain:
  "plain default_start" "plain default_end" "default_end \<noteq> []" "\<not> is_space (hd default_end)"
  by (simp_all add: plain_def is_syntax_char_def js_def default_start_def default_end_def
      backslash_def is_space_def)

lemma default_RegExp:
  "RegExp_fragment (pattern_source (CONFIG (\<lambda>name. None))) = Some (Inr default_pattern)"
  using RegExp_plain_markers [of "CONFIG (\<lambda>name. None)"] default_markers_plain(1,2)
  by (simp add: default_config default_pattern_def)

lemma demo_text_markers:
  "indexOf demo_text default_start = Some 7"
  "indexOf demo_text default_end = Some 39"
  "indexOf (drop (7 + length default_start) demo_text) default_end = Some 3"
  by (simp_all add: demo_text_def default_start_def default_end_def js_def)

lemma demo_names_pattern_free: "pattern_free demo_names"
  by (simp add: demo_names_def SEPARATOR_def js_def dollar_def)

lemma demo_text_parts:
  "take 7 demo_text = js ''# Demo'' @ [0x0A]"
  "drop (7 + length default_start + 3 + length default_end) demo_text
     = [0x0A] @ default_start @ js ''kept'' @ default_end @ [0x0A]"
  by (simp_all add: demo_text_def default_start_def default_end_def js_def)

section \<open>Evaluating a run\<close>

lemma example_roster_names:
  "roster_names example_roster = Inr (Some demo_names)"
  "roster_names3 example_roster = Inr demo_names"
  by (simp_all add: roster_names_def roster_names3_def example_roster_def tier_def member_def
      last_tier_names_def js_join_def demo_names_def)

lemmas run_defs =
  main1_def main1_try_def main2_def main2_try_def main3_def main3_try_def Let_def io_defs
  publish1_def publish2_def publish3_def
  files_to_update_def fetchSupporterData_def setupGitBranch1_def setupGitBranch2_def
  setupGitBranch3_def execAsync_def execAsync2_def process_file_def writeFile_def info_def
  createOrUpdatePR3_def commit2_def completed_def start_def

lemma plain_text_no_marker:
  "indexOf plain_text default_start = None"
  by (simp add: plain_text_def default_start_def js_def)

lemma update_plain_text:
  "updateFileContent (CONFIG (\<lambda>name. None)) (tree_of plain_text) (JStr README) pattern replacement
     = Inl (Error (js ''Markers are missing or misordered in '' @ README))"
  by (simp add: updateFileContent_def readFile_def tree_of_def default_config
      plain_text_no_marker markers_missing_def)

lemma recovery1_throws:
  "recovery1 env w = (Inl (not_defined (js ''originalBranch'')), w)"
  by (simp add: recovery1_def read_identifier_def main1_catch_scope_def io_defs)

lemma tree_of_update: "(tree_of content)(README \<mapsto> content') = tree_of content'"
  by (auto simp: tree_of_def)

lemma update_demo_text:
  "updateFileContent (CONFIG (\<lambda>name. None)) (tree_of demo_text) (JStr README) default_pattern
     (replacement_of (CONFIG (\<lambda>name. None)) demo_names) = Inr (Some demo_updated)"
proof -
  let ?cfg = "CONFIG (\<lambda>name. None)"
  have onfile: "tree_of demo_text README = Some demo_text"
    by (simp add: tree_of_def)
  have "updateFileContent ?cfg (tree_of demo_text) (JStr README) default_pattern
          (replacement_of ?cfg demo_names)
        = Inr (Some (take 7 demo_text @ replacement_of ?cfg demo_names
                     @ drop (7 + length (START_MARKER ?cfg) + 3 + length (END_MARKER ?cfg))
                         demo_text))"
    by (rule updateFileContent_plain_markers
          [where fs = "tree_of demo_text" and path = README and j = 39,
           OF _ _ _ _ demo_names_pattern_free default_RegExp onfile])
       (simp_all add: default_config default_markers_plain demo_text_markers)
  then show ?thesis
    unfolding default_config(1,2) demo_text_parts
    by (simp add: replacement_of_def default_config(1,2) demo_updated_def)
qed

lemma demo_updated_markers:
  "indexOf demo_updated default_start = Some 7"
  "indexOf demo_updated default_end = Some 45"
  "indexOf (drop (7 + length default_start) demo_updated) default_end = Some 9"
  by (simp_all add: demo_updated_def demo_names_def SEPARATOR_def default_start_def
      default_end_def js_def)

lemma demo_updated_parts:
  "take 7 demo_updated = js ''# Demo'' @ [0x0A]"
  "drop (7 + length default_start + 9 + length default_end) demo_updated
     = [0x0A] @ default_start @ js ''kept'' @ default_end @ [0x0A]"
  by (simp_all add: demo_updated_def demo_names_def SEPARATOR_def default_start_def
      default_end_def js_def)

lemma update_demo_updated:
  "updateFileContent (CONFIG (\<lambda>name. None)) (tree_of demo_updated) (JStr README) default_pattern
     (replacement_of (CONFIG (\<lambda>name. None)) demo_names) = Inr (Some demo_updated)"
proof -
  let ?cfg = "CONFIG (\<lambda>name. None)"
  have onfile: "tree_of demo_updated README = Some demo_updated"
    by (simp add: tree_of_def)
  have "updateFileContent ?cfg (tree_of demo_updated) (JStr README) default_pattern
          (replacement_of ?cfg demo_names)
        = Inr (Some (take 7 demo_updated @ replacement_of ?cfg demo_names
                     @ drop (7 + length (START_MARKER ?cfg) + 9 + length (END_MARKER ?cfg))
                         demo_updated))"
    by (rule updateFileContent_plain_markers
          [where fs = "tree_of demo_updated" and path = README and j = 45,
           OF _ _ _ _ demo_names_pattern_free default_RegExp onfile])
       (simp_all add: default_config default_markers_plain demo_updated_markers)
  then show ?thesis
    unfolding default_config(1,2) demo_updated_parts
    by (simp add: replacement_of_def default_config(1,2) demo_updated_def)
qed

lemma demo_updated_nonempty: "demo_updated \<noteq> []"
  by (simp add: demo_updated_def js_def)

lemma default_gitEmail:
  "supplied env = (\<lambda>name. None) \<Longrightarrow> gitEmail env = js ''actions@github.com''"
  by (simp add: gitEmail_def getInput_def action_defaults_def trim_def js_def is_space_def)

lemma default_git_config_email:
  "supplied env = (\<lambda>name. None)
   \<Longrightarrow> git_config_email env = js ''git config user.email '' @ dq # js ''actions@github.com'' @ [dq]"
  by (simp add: git_config_email_def default_gitEmail)

lemma not_git_commit:
  "js ''git checkout -B '' @ BRANCH_NAME \<noteq> git_commit"
  "js ''git reset --hard origin/main'' \<noteq> git_commit"
  "git_config_name \<noteq> git_commit"
  "js ''git config user.email '' @ dq # js ''actions@github.com'' @ [dq] \<noteq> git_commit"
  "js ''git add .'' \<noteq> git_commit"
  "js ''git status'' \<noteq> git_commit"
  "js ''git status --porcelain'' \<noteq> git_commit"
  by (simp_all add: git_commit_def git_config_name_def BRANCH_NAME_def js_def dq_def)

lemma trim_empty: "trim [] = []"
  by (simp add: trim_def)

lemma bracket_config:
  "START_MARKER (CONFIG bracket_inputs) = js ''<!-- [patrons] -->''"
  "END_MARKER (CONFIG bracket_inputs) = js ''<!-- [/patrons] -->''"
  "FAIL_ON_MISSING_MARKERS (CONFIG bracket_inputs)"
  by (simp_all add: CONFIG_def getInput_def bracket_inputs_def action_defaults_def trim_def js_def
      is_space_def)

lemma bracket_markers_present:
  "indexOf bracket_text (js ''<!-- [patrons] -->'') = Some 0"
  "indexOf bracket_text (js ''<!-- [/patrons] -->'') = Some 21"
  by (simp_all add: bracket_text_def js_def)

lemma bracket_RegExp:
  "RegExp_fragment (pattern_source (CONFIG bracket_inputs)) = Some (Inr bracket_pattern)"
  by (simp add: RegExp_fragment_def pattern_source_def bracket_config between_markers_def js_def
      backslash_def dollar_def is_syntax_char_def bracket_pattern_def lit_def between_terms_def)

lemma bracket_no_match: "bracket_pattern bracket_text = None"
  by (simp add: bracket_pattern_def exec_def bracket_text_def js_def lit_def between_terms_def)

lemma update_bracket_text:
  "updateFileContent (CONFIG bracket_inputs) (tree_of bracket_text) (JStr README) bracket_pattern
     replacement = Inr (Some bracket_text)"
  by (simp add: updateFileContent_def readFile_def tree_of_def bracket_config
      bracket_markers_present js_replace_def bracket_no_match)

lemma default_match: "default_pattern demo_text = Some (7, 66)"
  using exec_plain_markers [OF default_markers_plain(3,4) demo_text_markers(1,3)]
  by (simp add: default_pattern_def default_start_def default_end_def js_def)

lemma update_with_dollar_amp:
  "updateFileContent (CONFIG (\<lambda>name. None)) (tree_of demo_text) (JStr README) default_pattern
     (replacement_of (CONFIG (\<lambda>name. None)) dollar_amp)
   = Inr (Some (js ''# Demo'' @ [0x0A] @ default_start @ [0x0A, 0x0A]
                @ default_start @ js ''old'' @ default_end
                @ [0x0A, 0x0A] @ default_end @ [0x0A]
                @ default_start @ js ''kept'' @ default_end @ [0x0A]))"
  by (simp add: updateFileContent_def readFile_def tree_of_def default_config
      demo_text_markers js_replace_def default_match replacement_of_def dollar_amp_def)
     (simp add: demo_text_def default_start_def default_end_def js_def dollar_def)

lemma update_with_spender:
  "updateFileContent (CONFIG (\<lambda>name. None)) (tree_of demo_text) (JStr README) default_pattern
     (replacement_of (CONFIG (\<lambda>name. None)) spender)
   = Inr (Some (js ''# Demo'' @ [0x0A] @ default_start @ [0x0A, 0x0A]
                @ js ''Big $ Spender''
                @ [0x0A, 0x0A] @ default_end @ [0x0A]
                @ default_start @ js ''kept'' @ default_end @ [0x0A]))"
  by (simp add: updateFileContent_def readFile_def tree_of_def default_config
      demo_text_markers js_replace_def default_match replacement_of_def spender_def)
     (simp add: demo_text_def default_start_def default_end_def js_def dollar_def)

lemma misordered_markers:
  "indexOf misordered_text default_start = Some 28"
  "indexOf misordered_text default_end = Some 0"
  "indexOf (drop (28 + length default_start) misordered_text) default_end = Some 3"
  by (simp_all add: misordered_text_def default_start_def default_end_def js_def)

lemma update_misordered:
  "updateFileContent (CONFIG (\<lambda>name. None)) (tree_of misordered_text) (JStr README) pattern
     replacement = Inl (Error (js ''Markers are missing or misordered in '' @ README))"
  by (simp add: updateFileContent_def readFile_def tree_of_def default_config
      misordered_markers markers_missing_def)






section \<open>Configuration defaults\<close>

lemma trim_true: "trim (js ''true'') = js ''true''"
  by (simp add: trim_def js_def is_space_def)

lemma default_fail_on_missing_markers:
  "action_defaults (js ''fail-on-missing-markers'') = Some (js ''true'')"
  by (simp add: action_defaults_def js_def)

text \<open>
  C2. When the workflow does not supply \<^verbatim>\<open>fail-on-missing-markers\<close>, the flag of the
  configuration is true (the declared default \<^verbatim>\<open>true\<close> reaches \<^verbatim>\<open>core.getInput\<close>), and a
  file whose markers are missing or out of order makes \<^verbatim>\<open>updateFileContent\<close> throw the
  marker error instead of returning \<^verbatim>\<open>null\<close>. The error is not fatal, though: the handler
  inside the loop of \<^verbatim>\<open>main\<close> logs it for the file and the loop goes on with \<^verbatim>\<open>changesMade\<close>
  as it was. The run of each variant on the defaults and a file without markers ends
  with no failure signal.
\<close>

theorem fail_on_missing_markers_default:
  assumes "inputs (js ''fail-on-missing-markers'') = None"
    and "files w path = Some fileContent"
    and "indexOf fileContent (START_MARKER (CONFIG inputs)) = None
         \<or> indexOf fileContent (END_MARKER (CONFIG inputs)) = None
         \<or> (\<exists>s e. indexOf fileContent (START_MARKER (CONFIG inputs)) = Some s
                  \<and> indexOf fileContent (END_MARKER (CONFIG inputs)) = Some e \<and> s > e)"
  shows "FAIL_ON_MISSING_MARKERS (CONFIG inputs)
       \<and> updateFileContent (CONFIG inputs) (files w) (JStr path) pattern replacement
           = Inl (Error (js ''Markers are missing or misordered in '' @ path))
       \<and> process_file v env (CONFIG inputs) pattern replacement (JStr path) changesMade w
           = (Inr changesMade,
              w\<lparr>trace := trace w
                 @ (if v = Second then [Info (js ''Processing file: '' @ path)] else [])
                 @ [(if v = Third then ConsoleError else ErrorLog)
                      (js ''Failed to process '' @ path @ js '': ''
                       @ js ''Markers are missing or misordered in '' @ path)]\<rparr>)
       \<and> main1 example_env (start (tree_of plain_text))
           = (Inr (), \<lparr>files = tree_of plain_text,
                         trace = [Exec (js ''git checkout -B '' @ BRANCH_NAME),
                                  Exec (js ''git reset --hard origin/main''),
                                  ErrorLog (js ''Failed to process '' @ README @ js '': ''
                                            @ js ''Markers are missing or misordered in '' @ README),
                                  Info no_changes]\<rparr>)
       \<and> \<not> run_failed (main1 example_env (start (tree_of plain_text)))
       \<and> \<not> run_failed (main2 example_env None (start (tree_of plain_text)))
       \<and> \<not> run_failed (main3 example_env (start (tree_of plain_text)))"
proof -
  have flag: "FAIL_ON_MISSING_MARKERS (CONFIG inputs)"
    using assms(1) by (simp add: CONFIG_def getInput_def default_fail_on_missing_markers trim_true)
  have u: "updateFileContent (CONFIG inputs) (files w) (JStr path) pattern replacement
             = Inl (Error (js ''Markers are missing or misordered in '' @ path))"
    using flag assms(2,3)
    by (auto simp: updateFileContent_def readFile_def markers_missing_def split: option.splits)
  have caught: "process_file v env (CONFIG inputs) pattern replacement (JStr path) changesMade w
           = (Inr changesMade,
              w\<lparr>trace := trace w
                 @ (if v = Second then [Info (js ''Processing file: '' @ path)] else [])
                 @ [(if v = Third then ConsoleError else ErrorLog)
                      (js ''Failed to process '' @ path @ js '': ''
                       @ js ''Markers are missing or misordered in '' @ path)]\<rparr>)"
    by (simp add: u process_file_def io_defs)
  have run: "main1 example_env (start (tree_of plain_text))
           = (Inr (), \<lparr>files = tree_of plain_text,
                         trace = [Exec (js ''git checkout -B '' @ BRANCH_NAME),
                                  Exec (js ''git reset --hard origin/main''),
                                  ErrorLog (js ''Failed to process '' @ README @ js '': ''
                                            @ js ''Markers are missing or misordered in '' @ README),
                                  Info no_changes]\<rparr>)"
    by (simp add: run_defs example_env_def example_roster_names default_RegExp update_plain_text)
  have one: "\<not> run_failed (main1 example_env (start (tree_of plain_text)))"
    unfolding run by (simp add: run_failed_def)
  have two: "\<not> run_failed (main2 example_env None (start (tree_of plain_text)))"
    by (simp add: run_defs example_env_def example_roster_names default_RegExp update_plain_text
        run_failed_def)
  have three: "\<not> run_failed (main3 example_env (start (tree_of plain_text)))"
    by (simp add: run_defs example_env_def example_roster_names default_RegExp update_plain_text
        run_failed_def)
  from flag u caught run one two three show ?thesis
    by simp
qed

theorem fail_on_missing_markers_default_witness:
  "FAIL_ON_MISSING_MARKERS (CONFIG (\<lambda>name. None))
   \<and> updateFileContent (CONFIG (\<lambda>name. None)) (tree_of plain_text) (JStr README) default_pattern
       (replacement_of (CONFIG (\<lambda>name. None)) demo_names)
     = Inl (Error (js ''Markers are missing or misordered in '' @ README))
   \<and> process_file First example_env (CONFIG (\<lambda>name. None)) default_pattern
       (replacement_of (CONFIG (\<lambda>name. None)) demo_names) (JStr README) False
       (start (tree_of plain_text))
     = (Inr False,
        \<lparr>files = tree_of plain_text,
           trace = [ErrorLog (js ''Failed to process '' @ README @ js '': ''
                              @ js ''Markers are missing or misordered in '' @ README)]\<rparr>)
   \<and> \<not> run_failed (main1 example_env (start (tree_of plain_text)))"
  using fail_on_missing_markers_default
    [where inputs = "\<lambda>name. None" and w = "start (tree_of plain_text)" and path = README
       and fileContent = plain_text and v = First and env = example_env and changesMade = False
       and pattern = default_pattern
       and replacement = "replacement_of (CONFIG (\<lambda>name. None)) demo_names"]
  by (simp add: default_config plain_text_no_marker start_def tree_of_def run_failed_def)

section \<open>Substitution on examples\<close>

text \<open>
  C3. The file \<open>demo_text\<close> holds the default markers in order, the first start marker
  at index 7 and the first end marker at index 39, and a second marker pair after them.
  With the names of the example roster the first span is replaced by the block (start
  marker, two line feeds, the names, two line feeds, end marker) and the text around it,
  the second pair included, is unchanged, as the claim says (the pattern is the one
  that \<^verbatim>\<open>new RegExp\<close> makes of the pattern source). With the supporter name
  \<^verbatim>\<open>Big $$ Spender\<close> the claim fails: the block that is written holds
  \<^verbatim>\<open>Big $ Spender\<close>, because \<^verbatim>\<open>replace\<close> reads the replacement string that the program
  builds from the names as a template.
\<close>

theorem substitution_reads_names_as_template:
  "indexOf demo_text (START_MARKER (CONFIG (\<lambda>name. None))) = Some 7
   \<and> indexOf demo_text (END_MARKER (CONFIG (\<lambda>name. None))) = Some 39
   \<and> RegExp_fragment (pattern_source (CONFIG (\<lambda>name. None))) = Some (Inr default_pattern)
   \<and> updateFileContent (CONFIG (\<lambda>name. None)) (tree_of demo_text) (JStr README) default_pattern
       (replacement_of (CONFIG (\<lambda>name. None)) demo_names)
     = Inr (Some (js ''# Demo'' @ [0x0A]
                  @ default_start @ [0x0A, 0x0A] @ demo_names @ [0x0A, 0x0A] @ default_end
                  @ [0x0A] @ default_start @ js ''kept'' @ default_end @ [0x0A]))
   \<and> updateFileContent (CONFIG (\<lambda>name. None)) (tree_of demo_text) (JStr README) default_pattern
       (replacement_of (CONFIG (\<lambda>name. None)) spender)
     = Inr (Some (js ''# Demo'' @ [0x0A]
                  @ default_start @ [0x0A, 0x0A] @ js ''Big $ Spender'' @ [0x0A, 0x0A] @ default_end
                  @ [0x0A] @ default_start @ js ''kept'' @ default_end @ [0x0A]))
   \<and> updateFileContent (CONFIG (\<lambda>name. None)) (tree_of demo_text) (JStr README) default_pattern
       (replacement_of (CONFIG (\<lambda>name. None)) spender)
     \<noteq> Inr (Some (js ''# Demo'' @ [0x0A]
                  @ default_start @ [0x0A, 0x0A] @ spender @ [0x0A, 0x0A] @ default_end
                  @ [0x0A] @ default_start @ js ''kept'' @ default_end @ [0x0A]))"
  unfolding update_with_spender update_demo_text default_RegExp default_config(1,2)
    demo_text_markers(1,2)
  by (simp add: spender_def js_def demo_updated_def)




section \<open>The roster with no tiers\<close>

text \<open>
  C6. On a fetched roster whose \<^verbatim>\<open>tiers\<close> is the empty array (a file list being
  configured), the first and the second variant warn and end with no failure signal, no
  file written and no call of the pull-request service. The third variant has no guard:
  reading \<^verbatim>\<open>members\<close> of the missing last tier throws a TypeError, which the top level
  turns into the failure signal.
\<close>

theorem empty_tiers_runs:
  assumes "yaml_load env (files_input env) = Inr (JArr (f # fs))"
    and "JSON_parse env (files_input env) = Inr (JArr (f # fs))"
    and "fetch env = Inr (status, Inr data)" and "200 \<le> status" and "status \<le> 299"
    and "get_prop_opt (Some data) (js ''tiers'') = Some (JArr [])"
  shows "main1 env (start tree) = (Inr (), \<lparr>files = tree, trace = [Warning no_supporters]\<rparr>)
       \<and> main2 env repository (start tree)
           = (Inr (), \<lparr>files = tree,
                         trace = [Info (js ''Starting patron update process''),
                                  Warning no_supporters]\<rparr>)
       \<and> main3 env (start tree)
           = (Inr (), \<lparr>files = tree,
                         trace = [SetFailed (message (cannot_read (js ''undefined'')
                                                                  (js ''members'')))]\<rparr>)"
  using assms
  by (simp add: main1_def main1_try_def main2_def main2_try_def main3_def main3_try_def
      files_to_update_def fetchSupporterData_def roster_names_def roster_names3_def
      last_tier_names_def start_def io_defs)

theorem empty_tiers_runs_witness:
  "main1 (example_env\<lparr>fetch := Inr (200, Inr no_tiers)\<rparr>) (start (tree_of demo_text))
     = (Inr (), \<lparr>files = tree_of demo_text, trace = [Warning no_supporters]\<rparr>)
   \<and> main2 (example_env\<lparr>fetch := Inr (200, Inr no_tiers)\<rparr>) None (start (tree_of demo_text))
     = (Inr (), \<lparr>files = tree_of demo_text,
                   trace = [Info (js ''Starting patron update process''), Warning no_supporters]\<rparr>)
   \<and> main3 (example_env\<lparr>fetch := Inr (200, Inr no_tiers)\<rparr>) (start (tree_of demo_text))
     = (Inr (), \<lparr>files = tree_of demo_text,
                   trace = [SetFailed (js ''Cannot read properties of undefined (reading ''
                                       @ [quote] @ js ''members'' @ [quote] @ js '')'')]\<rparr>)"
  using empty_tiers_runs
    [where env = "example_env\<lparr>fetch := Inr (200, Inr no_tiers)\<rparr>" and f = "JStr README"
       and fs = "[]" and status = 200 and data = no_tiers and tree = "tree_of demo_text"
       and repository = None]
  by (simp add: example_env_def no_tiers_def cannot_read_def js_def)

section \<open>Auto-merge\<close>

lemma same_outcome_refl: "same_outcome r r"
  by (simp add: same_outcome_def)

lemma same_outcome_bind:
  assumes "\<And>x w'. same_outcome (f x w') (g x w')"
  shows "same_outcome (io_bind m f w) (io_bind m g w)"
  using assms by (simp add: io_bind_def same_outcome_def split: prod.splits sum.splits)

lemma same_outcome_seq:
  assumes "\<And>w'. same_outcome (n w') (n' w')"
  shows "same_outcome (io_seq m n w) (io_seq m n' w)"
  unfolding io_seq_def using assms by (rule same_outcome_bind)

lemma other_fields:
  "supplied (env\<lparr>graphql := g\<rparr>) = supplied env"
  "yaml_load (env\<lparr>graphql := g\<rparr>) = yaml_load env"
  "RegExp (env\<lparr>graphql := g\<rparr>) = RegExp env"
  "Octokit (env\<lparr>graphql := g\<rparr>) = Octokit env"
  by simp_all

lemma writeFile_graphql_unread:
  "writeFile (env\<lparr>graphql := g\<rparr>) filePath content = writeFile env filePath content"
  by (cases filePath) (simp_all add: writeFile_def)

lemma graphql_unread:
  "files_to_update (env\<lparr>graphql := g\<rparr>) load = files_to_update env load"
  "fetchSupporterData (env\<lparr>graphql := g\<rparr>) = fetchSupporterData env"
  "execAsync (env\<lparr>graphql := g\<rparr>) command = execAsync env command"
  "execAsync2 (env\<lparr>graphql := g\<rparr>) command = execAsync2 env command"
  "gitEmail (env\<lparr>graphql := g\<rparr>) = gitEmail env"
  "git_config_email (env\<lparr>graphql := g\<rparr>) = git_config_email env"
  by (simp_all add: files_input_def files_to_update_def fetchSupporterData_def execAsync_def
      execAsync2_def gitEmail_def git_config_email_def)

lemma setup_graphql_unread:
  "setupGitBranch1 (env\<lparr>graphql := g\<rparr>) branchName = setupGitBranch1 env branchName"
  "setupGitBranch2 (env\<lparr>graphql := g\<rparr>) branchName = setupGitBranch2 env branchName"
  "commit2 (env\<lparr>graphql := g\<rparr>) = commit2 env"
  by (simp_all add: setupGitBranch1_def setupGitBranch2_def commit2_def graphql_unread)

lemma process_file_graphql_unread:
  "process_file v (env\<lparr>graphql := g\<rparr>) cfg pattern replacement filePath changesMade
     = process_file v env cfg pattern replacement filePath changesMade"
  by (simp add: process_file_def writeFile_graphql_unread cong: if_cong option.case_cong)

lemma process_files_graphql_unread:
  "process_files v (env\<lparr>graphql := g\<rparr>) cfg pattern replacement filePaths changesMade
     = process_files v env cfg pattern replacement filePaths changesMade"
proof (induction filePaths arbitrary: changesMade)
  case Nil
  show ?case by simp
next
  case (Cons filePath rest)
  have "process_files v (env\<lparr>graphql := g\<rparr>) cfg pattern replacement rest
          = process_files v env cfg pattern replacement rest"
    using Cons.IH by (simp add: fun_eq_iff)
  then show ?case
    by (simp add: process_file_graphql_unread)
qed

lemma createOrUpdatePR_same_outcome:
  "same_outcome (createOrUpdatePR v (env\<lparr>graphql := g1\<rparr>) branchName owner_repo w)
                (createOrUpdatePR v (env\<lparr>graphql := g2\<rparr>) branchName owner_repo w)"
  by (simp add: createOrUpdatePR_def io_defs same_outcome_def
      split: sum.splits prod.splits option.splits)

lemma same_outcome_then_emit:
  assumes "same_outcome (m1 w) (m2 w)" and "\<not> is_SetFailed ev"
  shows "same_outcome (io_seq m1 (emit ev) w) (io_seq m2 (emit ev) w)"
  using assms
  by (auto simp: io_seq_def io_bind_def emit_def same_outcome_def split: prod.splits sum.splits)

lemma publish1_same_outcome:
  "same_outcome (publish1 (env\<lparr>graphql := g1\<rparr>) w) (publish1 (env\<lparr>graphql := g2\<rparr>) w)"
  unfolding publish1_def graphql_unread other_fields
  by (intro same_outcome_seq createOrUpdatePR_same_outcome)

lemma publish2_same_outcome:
  "same_outcome (publish2 (env\<lparr>graphql := g1\<rparr>) repository w)
                (publish2 (env\<lparr>graphql := g2\<rparr>) repository w)"
  unfolding publish2_def graphql_unread setup_graphql_unread other_fields completed_def
proof (intro same_outcome_seq same_outcome_bind)
  fix porcelainStatus w'
  show "same_outcome
     ((if trim porcelainStatus = [] then
         emit (Info (js ''No changes to commit, skipping commit and push operations''))
       else
         io_seq (emit (Info (js ''Changes detected: ''
                             @ show_nat (length (split_on 0x0A porcelainStatus))
                             @ js '' files modified'')))
        (io_seq (commit2 env)
        (io_seq (emit (Info (js ''Pushing to remote branch: '' @ BRANCH_NAME)))
        (io_seq (execAsync2 env (js ''git push -f origin '' @ BRANCH_NAME))
        (io_seq (emit (Info (js ''Push successful'')))
        (io_seq (fails (Octokit env))
        (io_seq (createOrUpdatePR Second (env\<lparr>graphql := g1\<rparr>) BRANCH_NAME
                   (owner_and_repo repository))
                (emit (Info (js ''Process completed successfully'')))))))))) w')
     ((if trim porcelainStatus = [] then
         emit (Info (js ''No changes to commit, skipping commit and push operations''))
       else
         io_seq (emit (Info (js ''Changes detected: ''
                             @ show_nat (length (split_on 0x0A porcelainStatus))
                             @ js '' files modified'')))
        (io_seq (commit2 env)
        (io_seq (emit (Info (js ''Pushing to remote branch: '' @ BRANCH_NAME)))
        (io_seq (execAsync2 env (js ''git push -f origin '' @ BRANCH_NAME))
        (io_seq (emit (Info (js ''Push successful'')))
        (io_seq (fails (Octokit env))
        (io_seq (createOrUpdatePR Second (env\<lparr>graphql := g2\<rparr>) BRANCH_NAME
                   (owner_and_repo repository))
                (emit (Info (js ''Process completed successfully'')))))))))) w')"
  proof (cases "trim porcelainStatus = []")
    case True
    then show ?thesis by (simp add: same_outcome_refl)
  next
    case False
    then show ?thesis
      by (simp only: if_False)
         (intro same_outcome_seq same_outcome_then_emit createOrUpdatePR_same_outcome, simp)
  qed
qed

lemma main1_try_same_outcome:
  "same_outcome (main1_try (env\<lparr>graphql := g1\<rparr>) w) (main1_try (env\<lparr>graphql := g2\<rparr>) w)"
  unfolding main1_try_def Let_def graphql_unread setup_graphql_unread
    process_files_graphql_unread other_fields
proof (intro same_outcome_bind)
  fix filesToUpdate data roster w'
  show "same_outcome
     ((case roster of
         None \<Rightarrow> emit (Warning no_supporters)
       | Some names \<Rightarrow>
           io_bind (lift (RegExp env (pattern_source (CONFIG (supplied env))))) (\<lambda>pattern.
           io_seq (setupGitBranch1 env BRANCH_NAME)
          (io_bind (process_files First env (CONFIG (supplied env)) pattern
                      (replacement_of (CONFIG (supplied env)) names) filesToUpdate False)
             (\<lambda>changesMade.
                if changesMade then publish1 (env\<lparr>graphql := g1\<rparr>)
                else emit (Info no_changes))))) w')
     ((case roster of
         None \<Rightarrow> emit (Warning no_supporters)
       | Some names \<Rightarrow>
           io_bind (lift (RegExp env (pattern_source (CONFIG (supplied env))))) (\<lambda>pattern.
           io_seq (setupGitBranch1 env BRANCH_NAME)
          (io_bind (process_files First env (CONFIG (supplied env)) pattern
                      (replacement_of (CONFIG (supplied env)) names) filesToUpdate False)
             (\<lambda>changesMade.
                if changesMade then publish1 (env\<lparr>graphql := g2\<rparr>)
                else emit (Info no_changes))))) w')"
  proof (cases roster)
    case None
    then show ?thesis by (simp add: same_outcome_refl)
  next
    case (Some names)
    have "same_outcome ((if changesMade then publish1 (env\<lparr>graphql := g1\<rparr>)
                         else emit (Info no_changes)) w'')
                       ((if changesMade then publish1 (env\<lparr>graphql := g2\<rparr>)
                         else emit (Info no_changes)) w'')" for changesMade w''
      by (cases changesMade) (simp_all add: publish1_same_outcome same_outcome_refl)
    then show ?thesis
      unfolding Some option.case
      by (intro same_outcome_bind same_outcome_seq)
  qed
qed

lemma main2_try_same_outcome:
  "same_outcome (main2_try (env\<lparr>graphql := g1\<rparr>) repository w)
                (main2_try (env\<lparr>graphql := g2\<rparr>) repository w)"
  unfolding main2_try_def Let_def graphql_unread setup_graphql_unread
    process_files_graphql_unread other_fields
proof (intro same_outcome_seq same_outcome_bind)
  fix filesToUpdate data roster w'
  show "same_outcome
     ((case roster of
         None \<Rightarrow> emit (Warning no_supporters)
       | Some names \<Rightarrow>
           io_bind (lift (RegExp env (pattern_source (CONFIG (supplied env))))) (\<lambda>pattern.
           io_seq (setupGitBranch2 env BRANCH_NAME)
          (io_bind (process_files Second env (CONFIG (supplied env)) pattern
                      (replacement_of (CONFIG (supplied env)) names) filesToUpdate False)
             (\<lambda>changesMade.
                if changesMade then publish2 (env\<lparr>graphql := g1\<rparr>) repository
                else io_seq (emit (Info no_changes)) completed)))) w')
     ((case roster of
         None \<Rightarrow> emit (Warning no_supporters)
       | Some names \<Rightarrow>
           io_bind (lift (RegExp env (pattern_source (CONFIG (supplied env))))) (\<lambda>pattern.
           io_seq (setupGitBranch2 env BRANCH_NAME)
          (io_bind (process_files Second env (CONFIG (supplied env)) pattern
                      (replacement_of (CONFIG (supplied env)) names) filesToUpdate False)
             (\<lambda>changesMade.
                if changesMade then publish2 (env\<lparr>graphql := g2\<rparr>) repository
                else io_seq (emit (Info no_changes)) completed)))) w')"
  proof (cases roster)
    case None
    then show ?thesis by (simp add: same_outcome_refl)
  next
    case (Some names)
    have "same_outcome ((if changesMade then publish2 (env\<lparr>graphql := g1\<rparr>) repository
                         else io_seq (emit (Info no_changes)) completed) w'')
                       ((if changesMade then publish2 (env\<lparr>graphql := g2\<rparr>) repository
                         else io_seq (emit (Info no_changes)) completed) w'')"
      for changesMade w''
      by (cases changesMade) (simp_all add: publish2_same_outcome same_outcome_refl)
    then show ?thesis
      unfolding Some option.case
      by (intro same_outcome_bind same_outcome_seq)
  qed
qed

lemma main1_fails_alike:
  "run_failed (main1 (env\<lparr>graphql := g1\<rparr>) w) = run_failed (main1 (env\<lparr>graphql := g2\<rparr>) w)"
proof -
  obtain r1 w1 where 1: "main1_try (env\<lparr>graphql := g1\<rparr>) w = (r1, w1)"
    by (cases "main1_try (env\<lparr>graphql := g1\<rparr>) w")
  obtain r2 w2 where 2: "main1_try (env\<lparr>graphql := g2\<rparr>) w = (r2, w2)"
    by (cases "main1_try (env\<lparr>graphql := g2\<rparr>) w")
  from main1_try_same_outcome [where env = env and ?g1.0 = g1 and ?g2.0 = g2 and w = w]
  have "isl r1 = isl r2" and "list_ex is_SetFailed (trace w1) = list_ex is_SetFailed (trace w2)"
    by (simp_all add: same_outcome_def 1 2)
  then show ?thesis
    by (cases r1; cases r2)
       (simp_all add: main1_def try_catch_def io_seq_def io_bind_def emit_def recovery1_throws
         run_failed_def 1 2)
qed

lemma main2_fails_alike:
  "run_failed (main2 (env\<lparr>graphql := g1\<rparr>) repository w)
     = run_failed (main2 (env\<lparr>graphql := g2\<rparr>) repository w)"
proof -
  obtain r1 w1 where 1: "main2_try (env\<lparr>graphql := g1\<rparr>) repository w = (r1, w1)"
    by (cases "main2_try (env\<lparr>graphql := g1\<rparr>) repository w")
  obtain r2 w2 where 2: "main2_try (env\<lparr>graphql := g2\<rparr>) repository w = (r2, w2)"
    by (cases "main2_try (env\<lparr>graphql := g2\<rparr>) repository w")
  from main2_try_same_outcome
    [where env = env and ?g1.0 = g1 and ?g2.0 = g2 and w = w and repository = repository]
  have "isl r1 = isl r2" and "list_ex is_SetFailed (trace w1) = list_ex is_SetFailed (trace w2)"
    by (simp_all add: same_outcome_def 1 2)
  then show ?thesis
    by (cases r1; cases r2)
       (simp_all add: main2_def try_catch_def io_seq_def io_bind_def emit_def
         run_failed_def 1 2)
qed

text \<open>
  C8. When \<^verbatim>\<open>createOrUpdatePR\<close> of the first or second variant creates a pull request and
  the call that enables auto-merge fails with error \<open>e\<close>, the function still returns
  normally: the failure is logged as the warning \<^verbatim>\<open>Failed to enable auto-merge: ...\<close>
  and the function goes on to report the created pull request. The run of \<^verbatim>\<open>main\<close> then
  fails exactly when the same run with a successful call fails. (The third variant never
  makes the call.)
\<close>

theorem auto_merge_failure_is_warning:
  assumes "pulls_list env = Inr []" and "pulls_create env = Inr (node_id, html_url)"
    and "graphql env = Some e"
  shows "createOrUpdatePR v env branchName owner_repo w =
           (Inr (), w\<lparr>trace := trace w
              @ (if v = Second
                 then [Info (js ''Creating/updating PR for branch '' @ branchName @ js '' in ''
                             @ owner_repo)]
                 else [])
              @ [PullsList]
              @ (if v = Second then [Info (js ''Creating new PR for branch '' @ branchName)]
                 else [])
              @ [PullsCreate, EnableAutoMerge,
                 Warning (js ''Failed to enable auto-merge: '' @ message e),
                 Info (js ''Pull request created: '' @ html_url)]\<rparr>)
       \<and> run_failed (main1 env w0) = run_failed (main1 (env\<lparr>graphql := None\<rparr>) w0)
       \<and> run_failed (main2 env repository w0)
           = run_failed (main2 (env\<lparr>graphql := None\<rparr>) repository w0)"
proof -
  have env: "env = env\<lparr>graphql := Some e\<rparr>"
    using assms(3) by simp
  have "run_failed (main1 (env\<lparr>graphql := Some e\<rparr>) w0)
          = run_failed (main1 (env\<lparr>graphql := None\<rparr>) w0)"
    by (rule main1_fails_alike)
  moreover have "run_failed (main2 (env\<lparr>graphql := Some e\<rparr>) repository w0)
          = run_failed (main2 (env\<lparr>graphql := None\<rparr>) repository w0)"
    by (rule main2_fails_alike)
  ultimately show ?thesis
    using assms env by (simp add: createOrUpdatePR_def io_defs)
qed

theorem auto_merge_failure_is_warning_witness:
  "main1 refusing_env (start (tree_of demo_text))
     = (Inr (),
        \<lparr>files = tree_of demo_updated,
           trace = [Exec (js ''git checkout -B '' @ BRANCH_NAME),
                    Exec (js ''git reset --hard origin/main''),
                    WriteFile README demo_updated,
                    Info (js ''Updated '' @ README @ js '' with supporter names.''),
                    Exec git_config_name,
                    Exec (js ''git config user.email '' @ [dq] @ js ''actions@github.com'' @ [dq]),
                    Exec (js ''git add .''),
                    Exec git_commit,
                    Exec (js ''git push -f origin '' @ BRANCH_NAME),
                    PullsList, PullsCreate, EnableAutoMerge,
                    Warning (js ''Failed to enable auto-merge: '' @ message merge_refused),
                    Info (js ''Pull request created: ''
                          @ js ''https://github.com/meza/demo/pull/1'')]\<rparr>)"
proof -
  have pr: "createOrUpdatePR First refusing_env BRANCH_NAME [] w =
           (Inr (), w\<lparr>trace := trace w
              @ [PullsList, PullsCreate, EnableAutoMerge,
                 Warning (js ''Failed to enable auto-merge: '' @ message merge_refused),
                 Info (js ''Pull request created: '' @ js ''https://github.com/meza/demo/pull/1'')]\<rparr>)"
    for w
    using auto_merge_failure_is_warning
      [where env = refusing_env and v = First and w = w and e = merge_refused
         and node_id = "js ''PR_kwDOA''" and html_url = "js ''https://github.com/meza/demo/pull/1''"
         and branchName = BRANCH_NAME and owner_repo = "[]", THEN conjunct1]
    by (simp add: refusing_env_def example_env_def)
  have env: "supplied refusing_env = (\<lambda>name. None)"
    "yaml_load refusing_env input = Inr (JArr [JStr README])"
    "fetch refusing_env = Inr (200, Inr example_roster)"
    "RegExp refusing_env source = the (RegExp_fragment source)" "writable refusing_env path"
    "shell refusing_env command = Exited [] []" "Octokit refusing_env = None"
    for input source path command
    by (simp_all add: refusing_env_def example_env_def)
  show ?thesis
    by (simp add: run_defs env pr example_roster_names default_RegExp update_demo_text
        demo_updated_nonempty tree_of_update default_git_config_email)
qed

section \<open>Committing\<close>

text \<open>
  C5. The claim holds of the second variant only. On a file that already holds the
  current names, \<^verbatim>\<open>updateFileContent\<close> returns the same text, the file is rewritten
  with it and \<^verbatim>\<open>changesMade\<close> is set. The first variant then runs \<^verbatim>\<open>git commit\<close> without
  asking for the staging status; the commit fails, and so does the run. The second
  variant asks \<^verbatim>\<open>git status --porcelain\<close> after staging, finds nothing and ends without
  a commit.
\<close>

theorem commit_attempted_without_staged_changes:
  "main1 unchanged_env (start (tree_of demo_updated))
     = (Inl (ReferenceError (js ''originalBranch'' @ js '' is not defined'')),
        \<lparr>files = tree_of demo_updated,
           trace = [Exec (js ''git checkout -B '' @ BRANCH_NAME),
                    Exec (js ''git reset --hard origin/main''),
                    WriteFile README demo_updated,
                    Info (js ''Updated '' @ README @ js '' with supporter names.''),
                    Exec git_config_name,
                    Exec (js ''git config user.email '' @ [dq] @ js ''actions@github.com'' @ [dq]),
                    Exec (js ''git add .''),
                    Exec git_commit,
                    SetFailed (js ''Command failed: '' @ git_commit)]\<rparr>)
   \<and> main2 unchanged_env None (start (tree_of demo_updated))
     = (Inr (),
        \<lparr>files = tree_of demo_updated,
           trace = [Info (js ''Starting patron update process''),
                    Info (js ''Setting up git branch: '' @ BRANCH_NAME),
                    Exec (js ''git checkout -B '' @ BRANCH_NAME),
                    Info (js ''Successfully checked out branch: '' @ BRANCH_NAME),
                    Info (js ''Processing file: '' @ README),
                    WriteFile README demo_updated,
                    Info (js ''Updated '' @ README @ js '' with supporter names.''),
                    Info (js ''Setting up git configuration with email: ''
                          @ js ''actions@github.com''),
                    Exec git_config_name,
                    Exec (js ''git config user.email '' @ [dq] @ js ''actions@github.com'' @ [dq]),
                    Exec (js ''git status''),
                    Exec (js ''git add .''),
                    Exec (js ''git status --porcelain''),
                    Info (js ''No changes to commit, skipping commit and push operations'')]\<rparr>)"
proof -
  have one: "main1 unchanged_env (start (tree_of demo_updated))
     = (Inl (ReferenceError (js ''originalBranch'' @ js '' is not defined'')),
        \<lparr>files = tree_of demo_updated,
           trace = [Exec (js ''git checkout -B '' @ BRANCH_NAME),
                    Exec (js ''git reset --hard origin/main''),
                    WriteFile README demo_updated,
                    Info (js ''Updated '' @ README @ js '' with supporter names.''),
                    Exec git_config_name,
                    Exec (js ''git config user.email '' @ [dq] @ js ''actions@github.com'' @ [dq]),
                    Exec (js ''git add .''),
                    Exec git_commit,
                    SetFailed (js ''Command failed: '' @ git_commit)]\<rparr>)"
    by (simp add: run_defs unchanged_env_def example_env_def example_roster_names default_RegExp
        update_demo_updated demo_updated_nonempty tree_of_update nothing_to_commit_def
        default_git_config_email not_git_commit recovery1_throws not_defined_def)
  have two: "main2 unchanged_env None (start (tree_of demo_updated))
     = (Inr (),
        \<lparr>files = tree_of demo_updated,
           trace = [Info (js ''Starting patron update process''),
                    Info (js ''Setting up git branch: '' @ BRANCH_NAME),
                    Exec (js ''git checkout -B '' @ BRANCH_NAME),
                    Info (js ''Successfully checked out branch: '' @ BRANCH_NAME),
                    Info (js ''Processing file: '' @ README),
                    WriteFile README demo_updated,
                    Info (js ''Updated '' @ README @ js '' with supporter names.''),
                    Info (js ''Setting up git configuration with email: ''
                          @ js ''actions@github.com''),
                    Exec git_config_name,
                    Exec (js ''git config user.email '' @ [dq] @ js ''actions@github.com'' @ [dq]),
                    Exec (js ''git status''),
                    Exec (js ''git add .''),
                    Exec (js ''git status --porcelain''),
                    Info (js ''No changes to commit, skipping commit and push operations'')]\<rparr>)"
    by (simp add: run_defs unchanged_env_def example_env_def example_roster_names default_RegExp
        update_demo_updated demo_updated_nonempty tree_of_update nothing_to_commit_def
        default_git_config_email default_gitEmail not_git_commit trim_empty)
  from one two show ?thesis
    by (rule conjI)
qed

section \<open>The recovery branch of the first variant\<close>

text \<open>
  C9. Neither \<^verbatim>\<open>originalBranch\<close> nor \<^verbatim>\<open>branchName\<close> is bound where the \<^verbatim>\<open>catch\<close> block of
  the first variant's \<^verbatim>\<open>main\<close> stands. So whenever the \<^verbatim>\<open>try\<close> block throws, the run
  raises the failure signal and then the recovery throws the ReferenceError for
  \<^verbatim>\<open>originalBranch\<close>: the promise of \<^verbatim>\<open>main\<close> is rejected and no recovery command is
  ever executed.
\<close>

theorem recovery_references_unbound_variables:
  assumes "main1_try env w = (Inl e, w')"
  shows "''originalBranch'' \<notin> set main1_catch_scope \<and> ''branchName'' \<notin> set main1_catch_scope
       \<and> main1 env w = (Inl (ReferenceError (js ''originalBranch'' @ js '' is not defined'')),
                         w'\<lparr>trace := trace w' @ [SetFailed (message e)]\<rparr>)"
  using assms
  by (simp add: main1_def recovery1_throws io_defs main1_catch_scope_def not_defined_def)

theorem recovery_references_unbound_variables_witness:
  "main1 (example_env\<lparr>yaml_load := \<lambda>input. Inr (JArr [])\<rparr>) (start (tree_of demo_text))
     = (Inl (ReferenceError (js ''originalBranch'' @ js '' is not defined'')),
        \<lparr>files = tree_of demo_text, trace = [SetFailed no_files_specified]\<rparr>)"
proof -
  let ?env = "example_env\<lparr>yaml_load := \<lambda>input. Inr (JArr [])\<rparr>"
  have "main1_try ?env (start (tree_of demo_text))
          = (Inl (Error no_files_specified), start (tree_of demo_text))"
    by (simp add: main1_try_def files_to_update_def io_defs example_env_def no_files_specified_def)
  from recovery_references_unbound_variables [OF this] show ?thesis
    by (simp add: start_def)
qed

section \<open>Marker errors\<close>

text \<open>
  An entry of the file list that cannot be printed, such as \<^verbatim>\<open>{toString: 1}\<close>, is refused
  by \<^verbatim>\<open>readFile\<close>; the template literal of the handler then throws, and this error leaves
  the loop.
\<close>

lemma unprintable_entry_leaves_loop:
  "process_file First env cfg pattern replacement (JObj [(js ''toString'', JNum (js ''1''))])
     changesMade w = (Inl not_primitive, w)"
  by (simp add: process_file_def io_defs updateFileContent_def readFile_def)

lemma flag_true_config:
  "CONFIG (flag_inputs (js ''true'')) = CONFIG (\<lambda>name. None)"
  by (simp add: CONFIG_def getInput_def flag_inputs_def action_defaults_def trim_def js_def
      is_space_def)

lemma flag_false_config:
  "START_MARKER (CONFIG (flag_inputs (js ''false''))) = default_start"
  "END_MARKER (CONFIG (flag_inputs (js ''false''))) = default_end"
  "\<not> FAIL_ON_MISSING_MARKERS (CONFIG (flag_inputs (js ''false'')))"
  by (simp_all add: CONFIG_def getInput_def flag_inputs_def action_defaults_def trim_def js_def
      is_space_def default_start_def default_end_def)

lemma flag_false_RegExp:
  "RegExp_fragment (pattern_source (CONFIG (flag_inputs (js ''false'')))) = Some (Inr default_pattern)"
  using default_RegExp by (simp add: pattern_source_def flag_false_config default_config)

lemma skip_plain_text:
  "updateFileContent (CONFIG (flag_inputs (js ''false''))) (tree_of plain_text) (JStr README)
     pattern replacement = Inr None"
  by (simp add: updateFileContent_def readFile_def tree_of_def flag_false_config
      plain_text_no_marker markers_missing_def)

lemma flagged_run1:
  "main1 (flagged_env (js ''true'')) (start (tree_of plain_text))
     = (Inr (), \<lparr>files = tree_of plain_text,
                   trace = [Exec (js ''git checkout -B '' @ BRANCH_NAME),
                            Exec (js ''git reset --hard origin/main''),
                            ErrorLog (js ''Failed to process '' @ README @ js '': ''
                                      @ js ''Markers are missing or misordered in '' @ README),
                            Info no_changes]\<rparr>)"
  by (simp add: run_defs flagged_env_def example_env_def flag_true_config example_roster_names
      default_RegExp update_plain_text)

lemma flagged_run2:
  "main2 (flagged_env (js ''true'')) None (start (tree_of plain_text))
     = (Inr (), \<lparr>files = tree_of plain_text,
                   trace = [Info (js ''Starting patron update process''),
                            Info (js ''Setting up git branch: '' @ BRANCH_NAME),
                            Exec (js ''git checkout -B '' @ BRANCH_NAME),
                            Info (js ''Successfully checked out branch: '' @ BRANCH_NAME),
                            Info (js ''Processing file: '' @ README),
                            ErrorLog (js ''Failed to process '' @ README @ js '': ''
                                      @ js ''Markers are missing or misordered in '' @ README),
                            Info no_changes,
                            Info (js ''Process completed successfully'')]\<rparr>)"
  by (simp add: run_defs flagged_env_def example_env_def flag_true_config example_roster_names
      default_RegExp update_plain_text)

lemma flagged_run3:
  "main3 (flagged_env (js ''true'')) (start (tree_of plain_text))
     = (Inr (), \<lparr>files = tree_of plain_text,
                   trace = [Exec (js ''git rev-parse --verify '' @ BRANCH_NAME),
                            Exec (js ''git checkout '' @ BRANCH_NAME),
                            Exec (js ''git pull origin '' @ BRANCH_NAME),
                            ConsoleError (js ''Failed to process '' @ README @ js '': ''
                                          @ js ''Markers are missing or misordered in '' @ README),
                            ConsoleLog no_changes]\<rparr>)"
  by (simp add: run_defs flagged_env_def example_env_def flag_true_config example_roster_names
      default_RegExp update_plain_text)

lemma flagged_run_misordered:
  "main1 (flagged_env (js ''true'')) (start (tree_of misordered_text))
     = (Inr (), \<lparr>files = tree_of misordered_text,
                   trace = [Exec (js ''git checkout -B '' @ BRANCH_NAME),
                            Exec (js ''git reset --hard origin/main''),
                            ErrorLog (js ''Failed to process '' @ README @ js '': ''
                                      @ js ''Markers are missing or misordered in '' @ README),
                            Info no_changes]\<rparr>)"
  by (simp add: run_defs flagged_env_def example_env_def flag_true_config example_roster_names
      default_RegExp update_misordered)

lemma unflagged_run1:
  "main1 (flagged_env (js ''false'')) (start (tree_of plain_text))
     = (Inr (), \<lparr>files = tree_of plain_text,
                   trace = [Exec (js ''git checkout -B '' @ BRANCH_NAME),
                            Exec (js ''git reset --hard origin/main''),
                            Info no_changes]\<rparr>)"
  by (simp add: run_defs flagged_env_def example_env_def flag_false_RegExp skip_plain_text
      example_roster_names)

text \<open>
  C1. The claim fails on the code. With \<^verbatim>\<open>fail-on-missing-markers\<close> supplied as \<^verbatim>\<open>true\<close> and a
  target file without the markers, \<^verbatim>\<open>updateFileContent\<close> throws the marker error, but the
  handler inside the loop of \<^verbatim>\<open>main\<close> catches it: in each of the three variants the error
  is logged for the file and the run ends normally, with no failure signal. The same
  holds of a file whose first start marker stands after its first end marker. Supplying
  \<^verbatim>\<open>false\<close> instead changes the run by the logged line only.
\<close>

theorem marker_error_does_not_fail_run:
  "FAIL_ON_MISSING_MARKERS (CONFIG (supplied (flagged_env (js ''true''))))
   \<and> indexOf plain_text (START_MARKER (CONFIG (supplied (flagged_env (js ''true''))))) = None
   \<and> updateFileContent (CONFIG (supplied (flagged_env (js ''true'')))) (tree_of plain_text)
       (JStr README) default_pattern
       (replacement_of (CONFIG (supplied (flagged_env (js ''true'')))) demo_names)
     = Inl (Error (js ''Markers are missing or misordered in '' @ README))
   \<and> main1 (flagged_env (js ''true'')) (start (tree_of plain_text))
     = (Inr (), \<lparr>files = tree_of plain_text,
                   trace = [Exec (js ''git checkout -B '' @ BRANCH_NAME),
                            Exec (js ''git reset --hard origin/main''),
                            ErrorLog (js ''Failed to process '' @ README @ js '': ''
                                      @ js ''Markers are missing or misordered in '' @ README),
                            Info no_changes]\<rparr>)
   \<and> \<not> run_failed (main1 (flagged_env (js ''true'')) (start (tree_of plain_text)))
   \<and> \<not> run_failed (main2 (flagged_env (js ''true'')) None (start (tree_of plain_text)))
   \<and> \<not> run_failed (main3 (flagged_env (js ''true'')) (start (tree_of plain_text)))
   \<and> indexOf misordered_text (START_MARKER (CONFIG (supplied (flagged_env (js ''true''))))) = Some 28
   \<and> indexOf misordered_text (END_MARKER (CONFIG (supplied (flagged_env (js ''true''))))) = Some 0
   \<and> \<not> run_failed (main1 (flagged_env (js ''true'')) (start (tree_of misordered_text)))
   \<and> main1 (flagged_env (js ''false'')) (start (tree_of plain_text))
     = (Inr (), \<lparr>files = tree_of plain_text,
                   trace = [Exec (js ''git checkout -B '' @ BRANCH_NAME),
                            Exec (js ''git reset --hard origin/main''),
                            Info no_changes]\<rparr>)"
proof -
  have cfg: "CONFIG (supplied (flagged_env (js ''true''))) = CONFIG (\<lambda>name. None)"
    by (simp add: flagged_env_def flag_true_config)
  show ?thesis
    unfolding cfg flagged_run1 flagged_run2 flagged_run3 flagged_run_misordered unflagged_run1
      update_plain_text default_config(1,2) plain_text_no_marker misordered_markers(1,2)
    by (simp add: default_config(3) run_failed_def)
qed

section \<open>Markers and names that are not read literally\<close>

text \<open>
  C10. The markers reach the pattern unescaped and the names reach the replacement
  template unescaped. With the markers \<^verbatim>\<open><!-- [patrons] -->\<close> and
  \<^verbatim>\<open><!-- [/patrons] -->\<close>, both found in the file by \<^verbatim>\<open>indexOf\<close>, the brackets are
  character classes and the pattern matches nowhere: \<^verbatim>\<open>updateFileContent\<close> returns the
  text unchanged, which is not the literal concatenation, and the loop of \<^verbatim>\<open>main\<close> still
  writes the file and sets \<^verbatim>\<open>changesMade\<close>. With the default markers and the name
  \<^verbatim>\<open>$&\<close>, the matched text is written in place of the name.
\<close>

theorem unescaped_markers_and_names:
  "indexOf bracket_text (START_MARKER (CONFIG bracket_inputs)) = Some 0
   \<and> indexOf bracket_text (END_MARKER (CONFIG bracket_inputs)) = Some 21
   \<and> RegExp_fragment (pattern_source (CONFIG bracket_inputs)) = Some (Inr bracket_pattern)
   \<and> bracket_pattern bracket_text = None
   \<and> updateFileContent (CONFIG bracket_inputs) (tree_of bracket_text) (JStr README)
       bracket_pattern (replacement_of (CONFIG bracket_inputs) demo_names)
     = Inr (Some bracket_text)
   \<and> bracket_text \<noteq> replacement_of (CONFIG bracket_inputs) demo_names
   \<and> process_file First example_env (CONFIG bracket_inputs) bracket_pattern
       (replacement_of (CONFIG bracket_inputs) demo_names) (JStr README) False
       (start (tree_of bracket_text))
     = (Inr True,
        \<lparr>files = tree_of bracket_text,
           trace = [WriteFile README bracket_text,
                    Info (js ''Updated '' @ README @ js '' with supporter names.'')]\<rparr>)
   \<and> updateFileContent (CONFIG (\<lambda>name. None)) (tree_of demo_text) (JStr README) default_pattern
       (replacement_of (CONFIG (\<lambda>name. None)) dollar_amp)
     = Inr (Some (js ''# Demo'' @ [0x0A] @ default_start @ [0x0A, 0x0A]
                  @ default_start @ js ''old'' @ default_end
                  @ [0x0A, 0x0A] @ default_end @ [0x0A]
                  @ default_start @ js ''kept'' @ default_end @ [0x0A]))
   \<and> updateFileContent (CONFIG (\<lambda>name. None)) (tree_of demo_text) (JStr README) default_pattern
       (replacement_of (CONFIG (\<lambda>name. None)) dollar_amp)
     \<noteq> Inr (Some (js ''# Demo'' @ [0x0A] @ default_start @ [0x0A, 0x0A] @ dollar_amp
                  @ [0x0A, 0x0A] @ default_end @ [0x0A]
                  @ default_start @ js ''kept'' @ default_end @ [0x0A]))"
proof -
  have differs: "bracket_text \<noteq> replacement_of (CONFIG bracket_inputs) demo_names"
    by (simp add: replacement_of_def bracket_config bracket_text_def js_def)
  have nonempty: "bracket_text \<noteq> []"
    by (simp add: bracket_text_def js_def)
  have caller: "process_file First example_env (CONFIG bracket_inputs) bracket_pattern
       (replacement_of (CONFIG bracket_inputs) demo_names) (JStr README) False
       (start (tree_of bracket_text))
     = (Inr True,
        \<lparr>files = tree_of bracket_text,
           trace = [WriteFile README bracket_text,
                    Info (js ''Updated '' @ README @ js '' with supporter names.'')]\<rparr>)"
    by (simp add: process_file_def io_defs start_def update_bracket_text nonempty writeFile_def
        info_def example_env_def tree_of_update)
  have amp: "js ''# Demo'' @ [0x0A] @ default_start @ [0x0A, 0x0A]
                  @ default_start @ js ''old'' @ default_end
                  @ [0x0A, 0x0A] @ default_end @ [0x0A]
                  @ default_start @ js ''kept'' @ default_end @ [0x0A]
             \<noteq> js ''# Demo'' @ [0x0A] @ default_start @ [0x0A, 0x0A] @ dollar_amp
                  @ [0x0A, 0x0A] @ default_end @ [0x0A]
                  @ default_start @ js ''kept'' @ default_end @ [0x0A]"
    by (simp add: dollar_amp_def default_start_def js_def dollar_def)
  show ?thesis
    unfolding update_with_dollar_amp update_bracket_text bracket_config(1,2)
      bracket_markers_present bracket_RegExp bracket_no_match caller
    using differs amp by (simp add: bracket_config(1,2))
qed


end
